theory Spec2Isabelle
  imports Main "HOL-Library.Char_ord" "HOL-Library.List_Lexorder"
    "HOL-Library.Product_Lexorder"
begin

section \<open>Python text primitives used by \<open>nlxheader.py\<close>\<close>

text \<open>
  The header is read as bytes and decoded as Latin-1, so every character of the header
  text is one of the 256 values of \<^typ>\<open>char\<close>. The character classes below are the
  classes of Python's \<open>re\<close> module for \<open>str\<close> patterns, restricted to these 256
  code points.
\<close>

definition isspace :: "char \<Rightarrow> bool" where
  "isspace c = (let n = (of_char c :: nat)
     in (9 \<le> n \<and> n \<le> 13) \<or> (28 \<le> n \<and> n \<le> 32) \<or> n = 133 \<or> n = 160)"

definition isdecimal :: "char \<Rightarrow> bool" where
  "isdecimal c = (let n = (of_char c :: nat) in 48 \<le> n \<and> n \<le> 57)"

definition isword :: "char \<Rightarrow> bool" where
  "isword c = (let n = (of_char c :: nat)
     in (48 \<le> n \<and> n \<le> 57) \<or> (65 \<le> n \<and> n \<le> 90) \<or> n = 95 \<or> (97 \<le> n \<and> n \<le> 122)
        \<or> n = 170 \<or> n = 178 \<or> n = 179 \<or> n = 181 \<or> n = 185 \<or> n = 186
        \<or> (188 \<le> n \<and> n \<le> 190) \<or> (192 \<le> n \<and> n \<le> 214) \<or> (216 \<le> n \<and> n \<le> 246)
        \<or> 248 \<le> n)"

subsection \<open>Regular expressions\<close>

text \<open>
  Every pattern of the module is a sequence of single characters and character classes,
  each with at most one greedy quantifier, and of capture groups around such sequences.
  \<open>rmatch\<close> is the backtracking matcher of \<open>re\<close> on this fragment: a quantified item
  first takes as many characters as it can and gives them back one at a time.
\<close>

datatype cset = CChar char | CSpace | CNonSpace | CWord | CDigit | CNonSpaceOrBlank

fun in_cset :: "cset \<Rightarrow> char \<Rightarrow> bool" where
  "in_cset (CChar a) c = (c = a)"
| "in_cset CSpace c = isspace c"
| "in_cset CNonSpace c = (\<not> isspace c)"
| "in_cset CWord c = isword c"
| "in_cset CDigit c = isdecimal c"
| "in_cset CNonSpaceOrBlank c = (\<not> isspace c \<or> c = CHR '' '')"

datatype quant = One | Star | Plus | Opt

datatype ritem = Item cset quant | GOpen nat | GClose nat

type_synonym pattern = "ritem list"

fun first_some :: "(nat \<Rightarrow> 'a option) \<Rightarrow> nat \<Rightarrow> nat \<Rightarrow> 'a option" where
  "first_some f lo 0 = (if lo = 0 then f 0 else None)"
| "first_some f lo (Suc n) =
     (if Suc n < lo then None
      else case f (Suc n) of Some r \<Rightarrow> Some r | None \<Rightarrow> first_some f lo n)"

fun quant_lo :: "quant \<Rightarrow> nat" where
  "quant_lo One = 1"
| "quant_lo Plus = 1"
| "quant_lo Star = 0"
| "quant_lo Opt = 0"

fun quant_hi :: "quant \<Rightarrow> nat \<Rightarrow> nat" where
  "quant_hi One n = min 1 n"
| "quant_hi Opt n = min 1 n"
| "quant_hi Star n = n"
| "quant_hi Plus n = n"

text \<open>
  \<open>rmatch p s pos ops caps\<close> matches \<open>p\<close> at the start of \<open>s\<close>; \<open>pos\<close> counts the
  characters consumed since the match began, \<open>ops\<close> the start of each open group and
  \<open>caps\<close> the span of each closed one. The result is the length of the match and the spans.
\<close>

fun rmatch :: "pattern \<Rightarrow> string \<Rightarrow> nat \<Rightarrow> (nat \<times> nat) list \<Rightarrow> (nat \<times> nat \<times> nat) list
    \<Rightarrow> (nat \<times> (nat \<times> nat \<times> nat) list) option" where
  "rmatch [] s pos ops caps = Some (pos, caps)"
| "rmatch (GOpen g # p) s pos ops caps = rmatch p s pos ((g, pos) # ops) caps"
| "rmatch (GClose g # p) s pos ops caps =
     rmatch p s pos ops ((g, (case map_of ops g of Some b \<Rightarrow> b | None \<Rightarrow> pos), pos) # caps)"
| "rmatch (Item c q # p) s pos ops caps =
     first_some (\<lambda>k. rmatch p (drop k s) (pos + k) ops caps)
       (quant_lo q) (quant_hi q (length (takeWhile (in_cset c) s)))"

record rematch =
  whole :: string
  groups :: "(nat \<times> string) list"

definition mk_match :: "string \<Rightarrow> nat \<times> (nat \<times> nat \<times> nat) list \<Rightarrow> rematch" where
  "mk_match s r = \<lparr>whole = take (fst r) s,
     groups = map (\<lambda>(g, b, e). (g, take (e - b) (drop b s))) (snd r)\<rparr>"

definition rgroup :: "rematch \<Rightarrow> nat \<Rightarrow> string" where
  "rgroup m g = (case map_of (groups m) g of Some t \<Rightarrow> t | None \<Rightarrow> [])"

text \<open>\<open>re.search\<close>: the match at the leftmost position that has one.\<close>

fun re_search :: "pattern \<Rightarrow> string \<Rightarrow> rematch option" where
  "re_search p [] = map_option (mk_match []) (rmatch p [] 0 [] [])"
| "re_search p (x # t) =
     (case rmatch p (x # t) 0 [] [] of
        Some r \<Rightarrow> Some (mk_match (x # t) r)
      | None \<Rightarrow> re_search p t)"

text \<open>
  \<open>re.findall\<close>: the successive non-overlapping matches, left to right. After an empty
  match the scan moves on by one character (on this fragment no longer match exists at a
  position whose first match is empty).
\<close>

fun findall_matches :: "pattern \<Rightarrow> string \<Rightarrow> rematch list" where
  "findall_matches p [] =
     (case rmatch p [] 0 [] [] of Some r \<Rightarrow> [mk_match [] r] | None \<Rightarrow> [])"
| "findall_matches p (x # t) =
     (case rmatch p (x # t) 0 [] [] of
        None \<Rightarrow> findall_matches p t
      | Some r \<Rightarrow> mk_match (x # t) r # findall_matches p (drop (fst r - 1) t))"

definition findall :: "pattern \<Rightarrow> string \<Rightarrow> string list" where
  "findall p s = map whole (findall_matches p s)"

definition findall2 :: "pattern \<Rightarrow> string \<Rightarrow> (string \<times> string) list" where
  "findall2 p s = map (\<lambda>m. (rgroup m 1, rgroup m 2)) (findall_matches p s)"

definition lit :: "string \<Rightarrow> pattern" where
  "lit s = map (\<lambda>c. Item (CChar c) One) s"

definition grp :: "nat \<Rightarrow> pattern \<Rightarrow> pattern" where
  "grp g p = GOpen g # p @ [GClose g]"

subsection \<open>String methods\<close>

definition startswith :: "string \<Rightarrow> string \<Rightarrow> bool" where
  "startswith s p = (take (length p) s = p)"

text \<open>\<open>bytes.strip(b"\x00")\<close>: the NUL bytes at both ends are removed.\<close>

definition strip_nul :: "string \<Rightarrow> string" where
  "strip_nul s = rev (dropWhile (\<lambda>c. c = CHR 0x00) (rev (dropWhile (\<lambda>c. c = CHR 0x00) s)))"

text \<open>\<open>str.rstrip(" ")\<close>: the blanks at the end are removed.\<close>

definition rstrip_blank :: "string \<Rightarrow> string" where
  "rstrip_blank s = rev (dropWhile (\<lambda>c. c = CHR '' '') (rev s))"

text \<open>\<open>sub in s\<close> for strings, and \<open>s.replace(old, new)\<close> for a non-empty \<open>old\<close>.\<close>

fun contains :: "string \<Rightarrow> string \<Rightarrow> bool" where
  "contains sub [] = (sub = [])"
| "contains sub (x # t) = (startswith (x # t) sub \<or> contains sub t)"

fun replace :: "string \<Rightarrow> string \<Rightarrow> string \<Rightarrow> string" where
  "replace old new [] = []"
| "replace old new (x # t) =
     (if old \<noteq> [] \<and> startswith (x # t) old
      then new @ replace old new (drop (length old - 1) t)
      else x # replace old new t)"

text \<open>\<open>str.split()\<close> without arguments: the maximal runs of non-whitespace characters.\<close>

function split :: "string \<Rightarrow> string list" where
  "split s =
     (let r = dropWhile isspace s
      in if r = [] then []
         else takeWhile (\<lambda>c. \<not> isspace c) r # split (dropWhile (\<lambda>c. \<not> isspace c) r))"
  by pat_completeness auto
termination
proof (relation "measure length")
  fix s r :: string
  assume r: "r = dropWhile isspace s" and ne: "r \<noteq> []"
  obtain x t where xt: "r = x # t"
    using ne by (cases r) auto
  have "\<not> isspace (hd r)"
    using ne unfolding r by (rule hd_dropWhile)
  then have "dropWhile (\<lambda>c. \<not> isspace c) r = dropWhile (\<lambda>c. \<not> isspace c) t"
    by (simp add: xt)
  moreover have "length (dropWhile (\<lambda>c. \<not> isspace c) t) \<le> length t"
    by (rule length_dropWhile_le)
  moreover have "length r \<le> length s"
    unfolding r by (rule length_dropWhile_le)
  ultimately show "(dropWhile (\<lambda>c. \<not> isspace c) r, s) \<in> measure length"
    by (simp add: xt)
qed simp

declare split.simps [simp del]

text \<open>
  \<open>str.upper()\<close>. The upper-case form of a Latin-1 character can lie outside Latin-1
  (the micro sign and \<open>y\<close> with diaeresis) or be two characters (sharp s), so the
  result is a list of Unicode code points.
\<close>

type_synonym ustring = "nat list"

definition codepoints :: "string \<Rightarrow> ustring" where
  "codepoints s = map of_char s"

definition upper_char :: "char \<Rightarrow> ustring" where
  "upper_char c = (let n = (of_char c :: nat)
     in if 97 \<le> n \<and> n \<le> 122 then [n - 32]
        else if n = 181 then [924]
        else if n = 223 then [83, 83]
        else if n = 255 then [376]
        else if 224 \<le> n \<and> n \<noteq> 247 then [n - 32]
        else [n])"

definition upper :: "string \<Rightarrow> ustring" where
  "upper s = concat (map upper_char s)"

section \<open>Values, errors and the library functions\<close>

datatype py_error =
  ValueError | AssertionError | KeyError | IndexError | IOError | TypeError
  | AttributeError | InvalidVersion | PyException

definition bindE :: "py_error + 'a \<Rightarrow> ('a \<Rightarrow> py_error + 'b) \<Rightarrow> py_error + 'b" where
  "bindE m f = (case m of Inl e \<Rightarrow> Inl e | Inr a \<Rightarrow> f a)"

subsection \<open>Versions of \<open>packaging.version\<close>\<close>

text \<open>
  A parsed version holds an epoch, the release numbers, and optional pre-release,
  post-release, development and local parts. Versions are compared through a key, in which
  an absent part stands for minus or plus infinity and the trailing zeros of the release
  are dropped; keys are compared as Python compares tuples.
\<close>

datatype 'a ext = NegInf | Fin 'a | PosInf

instantiation ext :: (ord) ord
begin

fun less_ext :: "'a ext \<Rightarrow> 'a ext \<Rightarrow> bool" where
  "less_ext NegInf b = (b \<noteq> NegInf)"
| "less_ext (Fin a) NegInf = False"
| "less_ext (Fin a) (Fin b) = (a < b)"
| "less_ext (Fin a) PosInf = True"
| "less_ext PosInf b = False"

definition less_eq_ext :: "'a ext \<Rightarrow> 'a ext \<Rightarrow> bool" where
  "less_eq_ext a b = (a < b \<or> a = b)"

instance ..

end

instance ext :: (order) order
proof
  fix x y z :: "'a ext"
  show "(x < y) = (x \<le> y \<and> \<not> y \<le> x)"
    by (cases x; cases y) (auto simp: less_eq_ext_def)
  show "x \<le> x"
    by (simp add: less_eq_ext_def)
  show "x \<le> y \<Longrightarrow> y \<le> z \<Longrightarrow> x \<le> z"
    by (cases x; cases y; cases z) (auto simp: less_eq_ext_def)
  show "x \<le> y \<Longrightarrow> y \<le> x \<Longrightarrow> x = y"
    by (cases x; cases y) (auto simp: less_eq_ext_def)
qed

record version =
  v_epoch :: nat
  v_release :: "nat list"
  v_pre :: "(string \<times> nat) option"
  v_post :: "nat option"
  v_dev :: "nat option"
  v_local :: "(nat + string) list option"

type_synonym cmpkey =
  "nat \<times> nat list \<times> (string \<times> nat) ext \<times> nat ext \<times> nat ext \<times> (nat ext \<times> string) list ext"

definition strip_zeros :: "nat list \<Rightarrow> nat list" where
  "strip_zeros r = rev (dropWhile (\<lambda>x. x = 0) (rev r))"

definition cmpkey :: "version \<Rightarrow> cmpkey" where
  "cmpkey v =
    (v_epoch v,
     strip_zeros (v_release v),
     (if v_pre v = None \<and> v_post v = None \<and> v_dev v \<noteq> None then NegInf
      else case v_pre v of None \<Rightarrow> PosInf | Some p \<Rightarrow> Fin p),
     (case v_post v of None \<Rightarrow> NegInf | Some n \<Rightarrow> Fin n),
     (case v_dev v of None \<Rightarrow> PosInf | Some n \<Rightarrow> Fin n),
     (case v_local v of None \<Rightarrow> NegInf
      | Some l \<Rightarrow> Fin (map (\<lambda>x. case x of Inl i \<Rightarrow> (Fin i, []) | Inr t \<Rightarrow> (NegInf, t)) l)))"

definition version_le :: "version \<Rightarrow> version \<Rightarrow> bool" where
  "version_le v w = (cmpkey v \<le> cmpkey w)"

definition version_lt :: "version \<Rightarrow> version \<Rightarrow> bool" where
  "version_lt v w = (cmpkey v < cmpkey w)"

definition version_eq :: "version \<Rightarrow> version \<Rightarrow> bool" where
  "version_eq v w = (cmpkey v = cmpkey w)"

text \<open>The value of \<open>Version("a.b.c")\<close> for a plain dotted literal.\<close>

definition release_version :: "nat list \<Rightarrow> version" where
  "release_version r = \<lparr>v_epoch = 0, v_release = r, v_pre = None, v_post = None,
     v_dev = None, v_local = None\<rparr>"

subsection \<open>Values of the header dictionary\<close>

datatype ('f, 't) pyval =
  VStr string | VFloat 'f | VInt int | VBool bool
  | VIntList "int list" | VStrList "string list" | VFloatList "'f list"
  | VVersion version | VDateTime 't | VNone

type_synonym ('f, 't) header = "string \<rightharpoonup> ('f, 't) pyval"

text \<open>
  The functions of the Python library whose result the module only passes on. \<open>'f\<close> is
  the type of floats and \<open>'t\<close> that of \<open>datetime\<close> values; a result \<open>None\<close> is the
  exception the function raises (\<open>ValueError\<close>, and \<open>InvalidVersion\<close> for \<open>Version\<close>).
\<close>

record ('f, 't) builtins =
  py_float :: "string \<Rightarrow> 'f option"
  py_int :: "string \<Rightarrow> int option"
  fmul :: "'f \<Rightarrow> 'f \<Rightarrow> 'f"
  f1e6 :: 'f
  Version :: "string \<Rightarrow> version option"
  strptime :: "string \<Rightarrow> string \<Rightarrow> 't option"

text \<open>\<open>re.findall(p, v)\<close> and \<open>len(v)\<close> on a value of the dictionary.\<close>

fun as_str :: "('f, 't) pyval \<Rightarrow> py_error + string" where
  "as_str (VStr s) = Inr s"
| "as_str _ = Inl TypeError"

fun py_len :: "('f, 't) pyval \<Rightarrow> py_error + nat" where
  "py_len (VStr s) = Inr (length s)"
| "py_len (VIntList l) = Inr (length l)"
| "py_len (VStrList l) = Inr (length l)"
| "py_len (VFloatList l) = Inr (length l)"
| "py_len _ = Inl TypeError"

definition getitem :: "('f, 't) header \<Rightarrow> string \<Rightarrow> py_error + ('f, 't) pyval" where
  "getitem h k = (case h k of None \<Rightarrow> Inl KeyError | Some v \<Rightarrow> Inr v)"

section \<open>The class \<open>NlxHeader\<close>\<close>

definition HEADER_SIZE :: nat where
  "HEADER_SIZE = 2 ^ 14"

definition to_bool :: "string \<Rightarrow> py_error + bool" where
  "to_bool txt =
     (if txt = ''True'' then Inr True
      else if txt = ''False'' then Inr False
      else Inl PyException)"

text \<open>
  The third entry of a row of \<open>txt_header_keys\<close>: \<open>None\<close>, \<open>float\<close>, \<open>_to_bool\<close>
  or \<open>int\<close>. The first entry is a fragment of a regular expression, the second the key
  of the dictionary (empty: the matched text is the key).
\<close>

datatype conv = NoConv | ToFloat | ToBool | ToInt

definition txt_header_keys :: "(pattern \<times> string \<times> conv) list" where
  "txt_header_keys = [
    (lit ''AcqEntName'', ''channel_names'', NoConv),
    (lit ''FileType'', [], NoConv),
    (lit ''FileVersion'', [], NoConv),
    (lit ''RecordSize'', [], NoConv),
    (lit ''HardwareSubSystemName'', [], NoConv),
    (lit ''HardwareSubSystemType'', [], NoConv),
    (lit ''SamplingFrequency'', ''sampling_rate'', ToFloat),
    (lit ''ADMaxValue'', [], NoConv),
    (lit ''ADBitVolts'', ''bit_to_microVolt'', NoConv),
    (lit ''NumADChannels'', [], NoConv),
    (lit ''ADChannel'', ''channel_ids'', NoConv),
    (lit ''InputRange'', [], NoConv),
    (lit ''InputInverted'', ''input_inverted'', ToBool),
    (lit ''DSPLowCutFilterEnabled'', [], NoConv),
    (lit ''DspLowCutFrequency'', [], NoConv),
    (lit ''DspLowCutNumTaps'', [], NoConv),
    (lit ''DspLowCutFilterType'', [], NoConv),
    (lit ''DSPHighCutFilterEnabled'', [], NoConv),
    (lit ''DspHighCutFrequency'', [], NoConv),
    (lit ''DspHighCutNumTaps'', [], NoConv),
    (lit ''DspHighCutFilterType'', [], NoConv),
    (lit ''DspDelayCompensation'', [], NoConv),
    (lit (''DspFilterDelay_'' @ [CHR 0xB5] @ ''s''), [], NoConv),
    (lit ''DisabledSubChannels'', [], NoConv),
    (lit ''WaveformLength'', [], ToInt),
    (lit ''AlignmentPt'', [], NoConv),
    (lit ''ThreshVal'', [], NoConv),
    (lit ''MinRetriggerSamples'', [], NoConv),
    (lit ''SpikeRetriggerTime'', [], NoConv),
    (lit ''DualThresholding'', [], NoConv),
    (lit ''Feature '' @ [Item CWord Plus] @ lit '' '' @ [Item CDigit Plus], [], NoConv),
    (lit ''SessionUUID'', [], NoConv),
    (lit ''FileUUID'', [], NoConv),
    (lit ''CheetahRev'', [], NoConv),
    (lit ''ProbeName'', [], NoConv),
    (lit ''OriginalFileName'', [], NoConv),
    (lit ''TimeCreated'', [], NoConv),
    (lit ''TimeClosed'', [], NoConv),
    (lit ''ApplicationName'', [], NoConv),
    (lit ''AcquisitionSystem'', [], NoConv),
    (lit ''ReferenceChannel'', [], NoConv),
    (lit ''NLX_Base_Class_Type'', [], NoConv)
  ]"

definition convert :: "('f, 't) builtins \<Rightarrow> conv \<Rightarrow> string \<Rightarrow> py_error + ('f, 't) pyval" where
  "convert lib c v =
     (case c of
        NoConv \<Rightarrow> Inr (VStr v)
      | ToFloat \<Rightarrow> (case py_float lib v of None \<Rightarrow> Inl ValueError | Some x \<Rightarrow> Inr (VFloat x))
      | ToBool \<Rightarrow> map_sum id VBool (to_bool v)
      | ToInt \<Rightarrow> (case py_int lib v of None \<Rightarrow> Inl ValueError | Some i \<Rightarrow> Inr (VInt i)))"

text \<open>The pattern \<open>-(?P<name>k1)\s+(?P<value>[\S ]*)\<close> of \<open>read_properties\<close>.\<close>

definition property_pattern :: "pattern \<Rightarrow> pattern" where
  "property_pattern k1 =
     lit ''-'' @ grp 1 k1 @ [Item CSpace Plus] @ grp 2 [Item CNonSpaceOrBlank Star]"

text \<open>The inner loop of \<open>read_properties\<close>, over the matches of one row.\<close>

fun store_matches :: "('f, 't) builtins \<Rightarrow> string \<Rightarrow> conv \<Rightarrow> (string \<times> string) list
    \<Rightarrow> ('f, 't) header \<Rightarrow> py_error + ('f, 't) header" where
  "store_matches lib k2 c [] h = Inr h"
| "store_matches lib k2 c (m # ms) h =
     (let name = (if k2 = [] then fst m else k2);
          v = rstrip_blank (snd m)
      in case convert lib c v of
           Inl e \<Rightarrow> Inl e
         | Inr x \<Rightarrow> store_matches lib k2 c ms (h(name \<mapsto> x)))"

text \<open>The outer loop, over the rows of the table.\<close>

fun read_keys :: "('f, 't) builtins \<Rightarrow> (pattern \<times> string \<times> conv) list \<Rightarrow> string
    \<Rightarrow> ('f, 't) header \<Rightarrow> py_error + ('f, 't) header" where
  "read_keys lib [] txt h = Inr h"
| "read_keys lib ((k1, k2, c) # ks) txt h =
     (case store_matches lib k2 c (findall2 (property_pattern k1) txt) h of
        Inl e \<Rightarrow> Inl e
      | Inr h' \<Rightarrow> read_keys lib ks txt h')"

definition read_properties :: "('f, 't) builtins \<Rightarrow> string \<Rightarrow> ('f, 't) header
    \<Rightarrow> py_error + ('f, 't) header" where
  "read_properties lib txt_header h = read_keys lib txt_header_keys txt_header h"

text \<open>\<open>[int(e) for e in entries]\<close> and \<open>[float(e) * 1e6 for e in entries]\<close>.\<close>

definition ints_of :: "('f, 't) builtins \<Rightarrow> string list \<Rightarrow> py_error + int list" where
  "ints_of lib es = (case those (map (py_int lib) es) of None \<Rightarrow> Inl ValueError | Some l \<Rightarrow> Inr l)"

definition microvolts_of :: "('f, 't) builtins \<Rightarrow> string list \<Rightarrow> py_error + 'f list" where
  "microvolts_of lib es =
     (case those (map (py_float lib) es) of
        None \<Rightarrow> Inl ValueError
      | Some l \<Rightarrow> Inr (map (\<lambda>x. fmul lib x (f1e6 lib)) l))"

text \<open>\<open>l * n\<close> for a list \<open>l\<close>.\<close>

definition list_times :: "'a list \<Rightarrow> nat \<Rightarrow> 'a list" where
  "list_times l n = concat (replicate n l)"

definition setInputRanges :: "('f, 't) builtins \<Rightarrow> nat \<Rightarrow> ('f, 't) header
    \<Rightarrow> py_error + ('f, 't) header" where
  "setInputRanges lib numChidEntries h =
     (case h ''InputRange'' of
        None \<Rightarrow> Inr h
      | Some v \<Rightarrow>
          bindE (as_str v) (\<lambda>s.
            let ir_entries = findall [Item CWord Plus] s
            in bindE (if length ir_entries = 1
                      then bindE (ints_of lib [hd ir_entries])
                             (\<lambda>l. Inr (list_times l numChidEntries))
                      else ints_of lib ir_entries) (\<lambda>l.
                 if length l = numChidEntries
                 then Inr (h(''InputRange'' \<mapsto> VIntList l))
                 else Inl AssertionError)))"

definition setBitToMicroVolt :: "('f, 't) builtins \<Rightarrow> ('f, 't) header
    \<Rightarrow> py_error + ('f, 't) header" where
  "setBitToMicroVolt lib h =
     (case h ''bit_to_microVolt'' of
        None \<Rightarrow> Inr h
      | Some v \<Rightarrow>
          bindE (as_str v) (\<lambda>s.
            let btm_entries = findall [Item CNonSpace Plus] s
            in bindE (if length btm_entries = 1
                      then bindE (getitem h ''channel_ids'') (\<lambda>ids.
                           bindE (py_len ids) (\<lambda>n. Inr (list_times btm_entries n)))
                      else Inr btm_entries) (\<lambda>btm_entries.
               bindE (microvolts_of lib btm_entries) (\<lambda>l.
               bindE (getitem h ''channel_ids'') (\<lambda>ids.
               bindE (py_len ids) (\<lambda>n.
                 if length l = n
                 then Inr (h(''bit_to_microVolt'' \<mapsto> VFloatList l))
                 else Inl AssertionError))))))"

text \<open>The double quote, and the pattern \<open>(\S*) "([\S ]*)"\<close>.\<close>

definition dquote :: char where
  "dquote = CHR 0x22"

definition application_pattern :: pattern where
  "application_pattern =
     grp 1 [Item CNonSpace Star] @ lit [CHR '' '', dquote]
     @ grp 2 [Item CNonSpaceOrBlank Star] @ lit [dquote]"

definition setApplicationAndVersion :: "('f, 't) builtins \<Rightarrow> ('f, 't) header
    \<Rightarrow> py_error + ('f, 't) header" where
  "setApplicationAndVersion lib h =
     bindE
       (if ''CheetahRev'' \<in> dom h then
          if ''ApplicationName'' \<in> dom h then Inl AssertionError
          else bindE (getitem (h(''ApplicationName'' \<mapsto> VStr ''Cheetah'')) ''CheetahRev'')
                 (\<lambda>v. Inr (h(''ApplicationName'' \<mapsto> VStr ''Cheetah''), v))
        else if ''ApplicationName'' \<in> dom h then
          bindE (getitem h ''ApplicationName'') (\<lambda>v.
          bindE (as_str v) (\<lambda>s.
            let match = findall2 application_pattern s
            in if length match = 1
               then Inr (h(''ApplicationName'' \<mapsto> VStr (fst (hd match))), VStr (snd (hd match)))
               else Inl AssertionError))
        else if ''NLX_Base_Class_Type'' \<in> dom h then
          Inr (h(''ApplicationName'' \<mapsto> VStr ''BML''), VStr ''2.0'')
        else
          Inr (h(''ApplicationName'' \<mapsto> VStr ''Neuraview''), VStr ''2''))
       (\<lambda>(h', v).
          bindE (as_str v) (\<lambda>app_version.
            let app_version =
                  (if contains '' Development'' app_version
                   then replace '' Development'' ''.dev0'' app_version
                   else app_version)
            in case Version lib app_version of
                 None \<Rightarrow> Inl InvalidVersion
               | Some ver \<Rightarrow> Inr (h'(''ApplicationVersion'' \<mapsto> VVersion ver))))"

text \<open>
  \<open>convert_channel_ids_names\<close> returns the number of channel id entries together with
  the updated dictionary. The file name only serves to compute a local variable that is
  never read, so it is not a parameter here.
\<close>

definition convert_channel_ids_names :: "('f, 't) builtins \<Rightarrow> ('f, 't) header
    \<Rightarrow> py_error + (('f, 't) header \<times> nat)" where
  "convert_channel_ids_names lib h =
     bindE
       (case h ''channel_ids'' of
          Some v \<Rightarrow>
            bindE (as_str v) (\<lambda>s.
              let chid_entries = findall [Item CNonSpace Plus] s
              in bindE (ints_of lib chid_entries) (\<lambda>l.
                   Inr (h(''channel_ids'' \<mapsto> VIntList l), chid_entries)))
        | None \<Rightarrow> Inr (h(''channel_ids'' \<mapsto> VStrList [''unknown'']), []))
       (\<lambda>(h1, chid_entries).
          bindE (getitem h1 ''channel_ids'') (\<lambda>ids.
          bindE
            (case h1 ''channel_names'' of
               Some v \<Rightarrow>
                 bindE (as_str v) (\<lambda>s.
                   let name_entries = findall [Item CNonSpace Plus] s
                   in bindE (if length name_entries = 1
                             then bindE (py_len ids) (\<lambda>n.
                                    Inr (h1(''channel_names'' \<mapsto> VStrList (list_times name_entries n))))
                             else Inr h1) (\<lambda>h2.
                      bindE (getitem h2 ''channel_names'') (\<lambda>names.
                      bindE (py_len names) (\<lambda>a.
                      bindE (py_len ids) (\<lambda>b.
                        if a = b then Inr h2 else Inl AssertionError)))))
             | None \<Rightarrow>
                 bindE (py_len ids) (\<lambda>n.
                   Inr (h1(''channel_names'' \<mapsto> VStrList (list_times [''unknown''] n)))))
            (\<lambda>h3. Inr (h3, length chid_entries))))"

subsection \<open>Dates and times\<close>

text \<open>
  The keys of \<open>header_pattern_dicts\<close> (\<open>"bml"\<close>, \<open>"v5.4.0"\<close>, \<open>"bv5.6.4"\<close>,
  \<open>"neuraview2"\<close>, \<open>"inProps"\<close>, \<open>"inHeader"\<close>) and its entries; an entry that a
  dictionary does not have is \<open>None\<close>. Group 1 of a date pattern is \<open>date\<close>, group 2 is
  \<open>time\<close>.
\<close>

datatype dialect = bml | v5_4_0 | bv5_6_4 | neuraview2 | inProps | inHeader

record hpd =
  datetime1_regex :: pattern
  datetime2_regex :: "pattern option"
  filename_regex :: "pattern option"
  datetimeformat :: string
  datetime2format :: "string option"

definition nonspace_group :: "nat \<Rightarrow> pattern" where
  "nonspace_group g = grp g [Item CNonSpace Plus]"

fun header_pattern_dicts :: "dialect \<Rightarrow> hpd" where
  "header_pattern_dicts bml = \<lparr>
     datetime1_regex = lit ''## Time Opened: (m/d/y): '' @ nonspace_group 1
       @ lit ''  At Time: '' @ nonspace_group 2,
     datetime2_regex = None,
     filename_regex = Some (lit ''## File Name: '' @ nonspace_group 1),
     datetimeformat = ''%m/%d/%y %H:%M:%S.%f'',
     datetime2format = None\<rparr>"
| "header_pattern_dicts v5_4_0 = \<lparr>
     datetime1_regex = lit ''## Time Opened (m/d/y): '' @ nonspace_group 1
       @ lit ''  At Time: '' @ nonspace_group 2,
     datetime2_regex = Some (lit ''## Time Closed (m/d/y): '' @ nonspace_group 1
       @ lit ''  At Time: '' @ nonspace_group 2),
     filename_regex = Some (lit ''## File Name: '' @ nonspace_group 1),
     datetimeformat = ''%m/%d/%Y %H:%M:%S.%f'',
     datetime2format = None\<rparr>"
| "header_pattern_dicts bv5_6_4 = \<lparr>
     datetime1_regex = lit ''## Time Opened (m/d/y): '' @ nonspace_group 1
       @ lit ''  (h:m:s.ms) '' @ nonspace_group 2,
     datetime2_regex = Some (lit ''## Time Closed (m/d/y): '' @ nonspace_group 1
       @ lit ''  (h:m:s.ms) '' @ nonspace_group 2),
     filename_regex = Some (lit ''## File Name '' @ nonspace_group 1),
     datetimeformat = ''%m/%d/%Y %H:%M:%S.%f'',
     datetime2format = None\<rparr>"
| "header_pattern_dicts neuraview2 = \<lparr>
     datetime1_regex = lit ''## Date Opened: (mm/dd/yyy): '' @ nonspace_group 1
       @ lit '' At Time: '' @ nonspace_group 2,
     datetime2_regex = Some (lit ''## Date Closed: (mm/dd/yyy): '' @ nonspace_group 1
       @ lit '' At Time: '' @ nonspace_group 2),
     filename_regex = Some (lit ''## File Name: '' @ nonspace_group 1),
     datetimeformat = ''%m/%d/%Y %H:%M:%S'',
     datetime2format = None\<rparr>"
| "header_pattern_dicts inProps = \<lparr>
     datetime1_regex = lit ''-TimeCreated '' @ nonspace_group 1 @ lit '' '' @ nonspace_group 2,
     datetime2_regex = Some (lit ''-TimeClosed '' @ nonspace_group 1 @ lit '' ''
       @ nonspace_group 2),
     filename_regex = Some (lit ''-OriginalFileName '' @ [Item (CChar dquote) Opt]
       @ nonspace_group 1 @ [Item (CChar dquote) Opt]),
     datetimeformat = ''%Y/%m/%d %H:%M:%S'',
     datetime2format = Some ''%Y/%m/%d %H:%M:%S.%f''\<rparr>"
| "header_pattern_dicts inHeader = \<lparr>
     datetime1_regex = lit ''## Time Opened: (m/d/y): '' @ nonspace_group 1
       @ lit ''  At Time: '' @ nonspace_group 2,
     datetime2_regex = None,
     filename_regex = None,
     datetimeformat = ''%m/%d/%y %H:%M:%S.%f'',
     datetime2format = None\<rparr>"

text \<open>
  \<open>readTimeDate\<close>, first part: the choice of the dictionary from the application name
  and version. (The names \<open>an\<close> and \<open>av\<close> that the source also sets only feed the text
  of the error messages.)
\<close>

definition readTimeDate_dialect :: "('f, 't) header \<Rightarrow> py_error + dialect" where
  "readTimeDate_dialect h =
     bindE (getitem h ''ApplicationName'') (\<lambda>an.
       if an = VStr ''Cheetah'' then
         bindE (getitem h ''ApplicationVersion'') (\<lambda>v.
           case v of
             VVersion av \<Rightarrow>
               Inr (if version_le av (release_version [2]) then bv5_6_4
                    else if version_lt av (release_version [5]) then inHeader
                    else if version_le av (release_version [5, 4, 0]) then v5_4_0
                    else if version_eq av (release_version [5, 6, 0]) then inHeader
                    else if version_le av (release_version [5, 6, 4]) then bv5_6_4
                    else inProps)
           | _ \<Rightarrow> Inl TypeError)
       else if an = VStr ''BML'' then Inr inHeader
       else if an = VStr ''Neuraview'' then Inr neuraview2
       else if an = VStr ''Pegasus'' then Inr inProps
       else Inr inProps)"

text \<open>
  Second part: the opening time. The two nested \<open>try\<close> blocks end in a bare \<open>except\<close>,
  so a format that fails, or that the dictionary does not have, gives \<open>None\<close>.
\<close>

definition datetime_text :: "rematch \<Rightarrow> string" where
  "datetime_text sr = rgroup sr 1 @ '' '' @ rgroup sr 2"

definition readTimeDate_open :: "('f, 't) builtins \<Rightarrow> hpd \<Rightarrow> string \<Rightarrow> ('f, 't) header
    \<Rightarrow> py_error + ('f, 't) header" where
  "readTimeDate_open lib d txt_header h =
     (case re_search (datetime1_regex d) txt_header of
        None \<Rightarrow> Inl IOError
      | Some sr \<Rightarrow>
          Inr (h(''recording_opened'' \<mapsto>
            (case strptime lib (datetime_text sr) (datetimeformat d) of
               Some t \<Rightarrow> VDateTime t
             | None \<Rightarrow>
                 (case datetime2format d of
                    None \<Rightarrow> VNone
                  | Some f2 \<Rightarrow>
                      (case strptime lib (datetime_text sr) f2 of
                         Some t \<Rightarrow> VDateTime t
                       | None \<Rightarrow> VNone))))))"

text \<open>Third part: the close time, if the dictionary has a pattern for it.\<close>

definition readTimeDate_close :: "('f, 't) builtins \<Rightarrow> hpd \<Rightarrow> string \<Rightarrow> ('f, 't) header
    \<Rightarrow> py_error + ('f, 't) header" where
  "readTimeDate_close lib d txt_header h =
     (case datetime2_regex d of
        None \<Rightarrow> Inr h
      | Some p \<Rightarrow>
          (case re_search p txt_header of
             None \<Rightarrow> Inl IOError
           | Some sr \<Rightarrow>
               Inr (h(''recording_closed'' \<mapsto>
                 (case strptime lib (datetime_text sr) (datetimeformat d) of
                    Some t \<Rightarrow> VDateTime t
                  | None \<Rightarrow> VNone)))))"

definition readTimeDate :: "('f, 't) builtins \<Rightarrow> string \<Rightarrow> ('f, 't) header
    \<Rightarrow> py_error + ('f, 't) header" where
  "readTimeDate lib txt_header h =
     bindE (readTimeDate_dialect h) (\<lambda>k.
     bindE (readTimeDate_open lib (header_pattern_dicts k) txt_header h) (\<lambda>h'.
       readTimeDate_close lib (header_pattern_dicts k) txt_header h'))"

subsection \<open>The type of recording\<close>

text \<open>
  The enumeration \<open>AcqType\<close> is imported from \<open>ncssections\<close>. Its members that the
  module names are constructors here; the names of the members it has besides are the
  parameter \<open>others\<close> of the lookup by name \<open>AcqType[name]\<close>.
\<close>

datatype AcqType =
  PRE4 | BML | DIGITALLYNX | DIGITALLYNXSX | CHEETAH64 | RAWDATAFILE | CHEETAH560 | UNKNOWN
  | OtherMember ustring

definition AcqType_getitem :: "ustring list \<Rightarrow> ustring \<Rightarrow> py_error + AcqType" where
  "AcqType_getitem others name =
     (if name = codepoints ''PRE4'' then Inr PRE4
      else if name = codepoints ''BML'' then Inr BML
      else if name = codepoints ''DIGITALLYNX'' then Inr DIGITALLYNX
      else if name = codepoints ''DIGITALLYNXSX'' then Inr DIGITALLYNXSX
      else if name = codepoints ''CHEETAH64'' then Inr CHEETAH64
      else if name = codepoints ''RAWDATAFILE'' then Inr RAWDATAFILE
      else if name = codepoints ''CHEETAH560'' then Inr CHEETAH560
      else if name = codepoints ''UNKNOWN'' then Inr UNKNOWN
      else if name \<in> set others then Inr (OtherMember name)
      else Inl KeyError)"

definition type_of_recording :: "ustring list \<Rightarrow> ('f, 't) header \<Rightarrow> py_error + AcqType" where
  "type_of_recording others h =
     (if ''NLX_Base_Class_Type'' \<in> dom h then
        if h ''NLX_Base_Class_Type'' = Some (VStr ''CscAcqEnt'') then Inr PRE4
        else if h ''NLX_Base_Class_Type'' = Some (VStr ''BmlAcq'') then Inr BML
        else Inr UNKNOWN
      else if ''HardwareSubSystemType'' \<in> dom h then
        if h ''HardwareSubSystemType'' = Some (VStr ''DigitalLynx'') then Inr DIGITALLYNX
        else if h ''HardwareSubSystemType'' = Some (VStr ''DigitalLynxSX'') then Inr DIGITALLYNXSX
        else if h ''HardwareSubSystemType'' = Some (VStr ''Cheetah64'') then Inr CHEETAH64
        else if h ''HardwareSubSystemType'' = Some (VStr ''RawDataFile'') then Inr RAWDATAFILE
        else Inr UNKNOWN
      else if ''FileType'' \<in> dom h then
        if ''FileVersion'' \<in> dom h
           \<and> h ''FileVersion'' \<in> Some ` VStr ` {''3.2'', ''3.3'', ''3.4''}
        then
          bindE (getitem h ''AcquisitionSystem'') (\<lambda>v.
            case v of
              VStr s \<Rightarrow>
                (let toks = split s
                 in if 1 < length toks
                    then AcqType_getitem others (upper (toks ! 1))
                    else Inl IndexError)
            | _ \<Rightarrow> Inl AttributeError)
        else Inr CHEETAH560
      else Inr UNKNOWN)"

subsection \<open>The constructor\<close>

text \<open>
  \<open>__init__\<close> on the bytes of the file. Decoding as Latin-1 keeps every byte as the
  character of the same code. Line 95 builds a \<open>ValueError\<close> and drops it: the statement
  has no \<open>raise\<close>, so the value \<open>dropped\<close> below is never looked at.
\<close>

definition NlxHeader_init :: "('f, 't) builtins \<Rightarrow> string \<Rightarrow> bool \<Rightarrow> py_error + ('f, 't) header" where
  "NlxHeader_init lib file_bytes props_only =
     (let txt_header = strip_nul (take HEADER_SIZE file_bytes);
          dropped = (if \<not> props_only \<and> \<not> startswith txt_header ''########''
                     then Some ValueError else None)
      in bindE (read_properties lib txt_header Map.empty) (\<lambda>h1.
         bindE (convert_channel_ids_names lib h1) (\<lambda>(h2, numChidEntries).
         bindE (setApplicationAndVersion lib h2) (\<lambda>h3.
         bindE (setBitToMicroVolt lib h3) (\<lambda>h4.
         bindE (setInputRanges lib numChidEntries h4) (\<lambda>h5.
           if \<not> props_only then readTimeDate lib txt_header h5 else Inr h5))))))"

subsection \<open>Names of the members of \<open>AcqType\<close>\<close>

definition AcqType_name :: "AcqType \<Rightarrow> ustring" where
  "AcqType_name t =
     (case t of
        PRE4 \<Rightarrow> codepoints ''PRE4''
      | BML \<Rightarrow> codepoints ''BML''
      | DIGITALLYNX \<Rightarrow> codepoints ''DIGITALLYNX''
      | DIGITALLYNXSX \<Rightarrow> codepoints ''DIGITALLYNXSX''
      | CHEETAH64 \<Rightarrow> codepoints ''CHEETAH64''
      | RAWDATAFILE \<Rightarrow> codepoints ''RAWDATAFILE''
      | CHEETAH560 \<Rightarrow> codepoints ''CHEETAH560''
      | UNKNOWN \<Rightarrow> codepoints ''UNKNOWN''
      | OtherMember n \<Rightarrow> n)"

definition AcqType_names :: "ustring list \<Rightarrow> ustring set" where
  "AcqType_names others =
     codepoints ` {''PRE4'', ''BML'', ''DIGITALLYNX'', ''DIGITALLYNXSX'', ''CHEETAH64'',
       ''RAWDATAFILE'', ''CHEETAH560'', ''UNKNOWN''} \<union> set others"

subsection \<open>Example headers\<close>

definition header_both_markers :: "(int, nat list) header" where
  "header_both_markers = [''NLX_Base_Class_Type'' \<mapsto> VStr ''BmlAcq'',
     ''HardwareSubSystemType'' \<mapsto> VStr ''DigitalLynx'']"

definition header_foo_barbaz :: "(int, nat list) header" where
  "header_foo_barbaz = [''FileType'' \<mapsto> VStr ''X'', ''FileVersion'' \<mapsto> VStr ''3.3'',
     ''AcquisitionSystem'' \<mapsto> VStr ''Foo BARBAZ'']"

definition header_cheetah_56 :: "(int, nat list) header" where
  "header_cheetah_56 = [''ApplicationName'' \<mapsto> VStr ''Cheetah'',
     ''ApplicationVersion'' \<mapsto> VVersion (release_version [5, 6])]"

subsection \<open>A sample library and sample files\<close>

text \<open>
  A library for the examples: it gives the results of \<open>float\<close>, \<open>int\<close>, \<open>Version\<close> and
  \<open>strptime\<close> on the strings that the examples pass to them, and rejects the strings
  \<open>abc\<close> (for \<open>int\<close>) and \<open>xx yy\<close> (for \<open>strptime\<close>) as Python does. Floats with
  integral values are written as integers, and a \<open>datetime\<close> as the list of its year,
  month, day, hour, minute, second and microsecond.
\<close>

definition sample_lib :: "(int, nat list) builtins" where
  "sample_lib = \<lparr>
     py_float = map_of [(''2'', 2)],
     py_int = map_of [(''7'', 7)],
     fmul = (*),
     f1e6 = 1000000,
     Version = map_of [(''2'', release_version [2]), (''2.0'', release_version [2, 0])],
     strptime = (\<lambda>s f. map_of
       [((''12/14/2015 15:58:32'', ''%m/%d/%Y %H:%M:%S''), [2015, 12, 14, 15, 58, 32, 0])] (s, f))\<rparr>"

definition header_neuraview :: "(int, nat list) header" where
  "header_neuraview = [''ApplicationName'' \<mapsto> VStr ''Neuraview'']"


definition line_opened :: string where
  "line_opened = ''## Date Opened: (mm/dd/yyy): 12/14/2015 At Time: 15:58:32''"

definition line_closed :: string where
  "line_closed = ''## Date Closed: (mm/dd/yyy): 12/14/2015 At Time: 15:58:32''"

definition file_neuraview :: string where
  "file_neuraview = ''-InputRange 7'' @ [CHR 0x0A] @ line_opened @ [CHR 0x0A] @ line_closed"

definition file_bad_input_range :: string where
  "file_bad_input_range = ''-InputRange abc''"

definition file_both_names :: string where
  "file_both_names = ''-CheetahRev 1'' @ [CHR 0x0A] @ ''-ApplicationName x''"

definition text_date_opened_only :: string where
  "text_date_opened_only = ''## Date Opened: (mm/dd/yyy): xx At Time: yy''"

definition text_time_opened_only :: string where
  "text_time_opened_only = ''## Time Opened: (m/d/y): xx  At Time: yy''"

definition text_title_only :: string where
  "text_title_only = ''######## Neuralynx Data File Header''"

definition header_bml :: "(int, nat list) header" where
  "header_bml = [''ApplicationName'' \<mapsto> VStr ''BML'']"

definition header_four_channels :: "(int, nat list) header" where
  "header_four_channels = [''bit_to_microVolt'' \<mapsto> VStr ''2'',
     ''channel_ids'' \<mapsto> VIntList [0, 1, 2, 3]]"

definition header_parsed :: "(int, nat list) header" where
  "header_parsed = [
     ''InputRange'' \<mapsto> VIntList [],
     ''channel_ids'' \<mapsto> VStrList [''unknown''],
     ''channel_names'' \<mapsto> VStrList [''unknown''],
     ''ApplicationName'' \<mapsto> VStr ''Neuraview'',
     ''ApplicationVersion'' \<mapsto> VVersion (release_version [2]),
     ''recording_opened'' \<mapsto> VDateTime [2015, 12, 14, 15, 58, 32, 0],
     ''recording_closed'' \<mapsto> VDateTime [2015, 12, 14, 15, 58, 32, 0]]"

section \<open>Properties\<close>

subsection \<open>Basic facts\<close>

lemma bindE_Inl [simp]: "bindE (Inl e) f = Inl e"
  by (simp add: bindE_def)

lemma bindE_Inr [simp]: "bindE (Inr a) f = f a"
  by (simp add: bindE_def)

lemma bindE_eq_Inr: "bindE m f = Inr b \<longleftrightarrow> (\<exists>a. m = Inr a \<and> f a = Inr b)"
  by (cases m) simp_all

lemma getitem_Some [simp]: "h k = Some v \<Longrightarrow> getitem h k = Inr v"
  by (simp add: getitem_def)

lemma getitem_None [simp]: "h k = None \<Longrightarrow> getitem h k = Inl KeyError"
  by (simp add: getitem_def)

lemma getitem_eq_Inr: "getitem h k = Inr v \<longleftrightarrow> h k = Some v"
  by (simp add: getitem_def split: option.splits)

lemma AcqType_getitem_name: "AcqType_getitem others n = Inr t \<Longrightarrow> AcqType_name t = n"
  by (auto simp: AcqType_getitem_def AcqType_name_def split: if_splits)

lemma AcqType_getitem_member:
  "n \<in> AcqType_names others \<Longrightarrow> \<exists>t. AcqType_getitem others n = Inr t"
  by (auto simp: AcqType_getitem_def AcqType_names_def)

lemma AcqType_getitem_missing:
  "n \<notin> AcqType_names others \<Longrightarrow> AcqType_getitem others n = Inl KeyError"
  by (auto simp: AcqType_getitem_def AcqType_names_def)

subsection \<open>The type of recording\<close>

text \<open>
  C5. When the header has a value under \<open>NLX_Base_Class_Type\<close>, \<open>type_of_recording\<close>
  answers from that value alone: \<open>CscAcqEnt\<close> gives \<open>PRE4\<close>, \<open>BmlAcq\<close> gives \<open>BML\<close>,
  anything else \<open>UNKNOWN\<close>; setting, changing or removing \<open>HardwareSubSystemType\<close>
  leaves the answer as it is.
\<close>

theorem type_of_recording_base_class_only:
  assumes "h ''NLX_Base_Class_Type'' = Some v"
  shows "type_of_recording others h =
           (if v = VStr ''CscAcqEnt'' then Inr PRE4
            else if v = VStr ''BmlAcq'' then Inr BML else Inr UNKNOWN)
         \<and> type_of_recording others (h(''HardwareSubSystemType'' := w)) = type_of_recording others h"
proof -
  let ?h' = "h(''HardwareSubSystemType'' := w)"
  have a: "?h' ''NLX_Base_Class_Type'' = Some v"
    using assms by simp
  have d: "''NLX_Base_Class_Type'' \<in> dom h" "''NLX_Base_Class_Type'' \<in> dom ?h'"
    using assms a by (simp_all only: domI)
  have 1: "type_of_recording others h =
      (if v = VStr ''CscAcqEnt'' then Inr PRE4
            else if v = VStr ''BmlAcq'' then Inr BML else Inr UNKNOWN)"
    unfolding type_of_recording_def using d(1) by (simp only: if_True assms option.inject)
  have 2: "type_of_recording others ?h' =
      (if v = VStr ''CscAcqEnt'' then Inr PRE4
            else if v = VStr ''BmlAcq'' then Inr BML else Inr UNKNOWN)"
    unfolding type_of_recording_def using d(2) by (simp only: if_True a option.inject)
  show ?thesis
    using 1 2 by simp
qed

theorem type_of_recording_base_class_only_witness:
  "header_both_markers ''NLX_Base_Class_Type'' = Some (VStr ''BmlAcq'')
   \<and> header_both_markers ''HardwareSubSystemType'' = Some (VStr ''DigitalLynx'')
   \<and> type_of_recording [] header_both_markers = Inr BML
   \<and> type_of_recording [] (header_both_markers(''HardwareSubSystemType'' := None)) = Inr BML"
proof -
  have h: "header_both_markers ''NLX_Base_Class_Type'' = Some (VStr ''BmlAcq'')"
    by (simp add: header_both_markers_def)
  have g: "header_both_markers ''HardwareSubSystemType'' = Some (VStr ''DigitalLynx'')"
    by (simp add: header_both_markers_def)
  show ?thesis
    using h g type_of_recording_base_class_only
      [of header_both_markers "VStr ''BmlAcq''" "[]" None] by simp
qed

text \<open>
  C6. With neither \<open>NLX_Base_Class_Type\<close> nor \<open>HardwareSubSystemType\<close>, with
  \<open>FileType\<close> present and \<open>FileVersion\<close> one of 3.2, 3.3, 3.4, and an
  \<open>AcquisitionSystem\<close> string of at least two whitespace-separated tokens, every
  result of \<open>type_of_recording\<close> is the member of \<open>AcqType\<close> whose name is the second
  token in upper case; there is a result when the enumeration has a member of that name,
  and the lookup fails (\<open>KeyError\<close>) when it has none.
\<close>

theorem type_of_recording_acquisition_system:
  assumes "''NLX_Base_Class_Type'' \<notin> dom h" and "''HardwareSubSystemType'' \<notin> dom h"
    and "''FileType'' \<in> dom h"
    and "h ''FileVersion'' = Some (VStr fv)" and "fv \<in> {''3.2'', ''3.3'', ''3.4''}"
    and "h ''AcquisitionSystem'' = Some (VStr a)" and "1 < length (split a)"
  shows "(\<forall>t. type_of_recording others h = Inr t \<longrightarrow> AcqType_name t = upper (split a ! 1))
       \<and> (upper (split a ! 1) \<in> AcqType_names others \<longrightarrow> (\<exists>t. type_of_recording others h = Inr t))
       \<and> (upper (split a ! 1) \<notin> AcqType_names others \<longrightarrow> type_of_recording others h = Inl KeyError)"
proof -
  have "type_of_recording others h = AcqType_getitem others (upper (split a ! 1))"
    using assms by (auto simp: type_of_recording_def Let_def dom_def)
  then show ?thesis
    using AcqType_getitem_name AcqType_getitem_member AcqType_getitem_missing by metis
qed

lemma split_foo_barbaz: "split ''Foo BARBAZ'' = [''Foo'', ''BARBAZ'']"
  by code_simp

lemma upper_barbaz: "upper ''BARBAZ'' = codepoints ''BARBAZ''"
  by code_simp

lemma barbaz_not_member: "codepoints ''BARBAZ'' \<notin> AcqType_names []"
  by (simp add: AcqType_names_def codepoints_def)

theorem type_of_recording_acquisition_system_witness:
  "type_of_recording [codepoints ''BARBAZ''] header_foo_barbaz = Inr (OtherMember (codepoints ''BARBAZ''))
   \<and> type_of_recording [] header_foo_barbaz = Inl KeyError"
proof -
  have a: "''NLX_Base_Class_Type'' \<notin> dom header_foo_barbaz"
    "''HardwareSubSystemType'' \<notin> dom header_foo_barbaz"
    "''FileType'' \<in> dom header_foo_barbaz"
    "header_foo_barbaz ''FileVersion'' = Some (VStr ''3.3'')"
    "''3.3'' \<in> {''3.2'', ''3.3'', ''3.4''}"
    "header_foo_barbaz ''AcquisitionSystem'' = Some (VStr ''Foo BARBAZ'')"
    "1 < length (split ''Foo BARBAZ'')"
    by (simp_all add: header_foo_barbaz_def dom_def split_foo_barbaz)
  have n: "upper (split ''Foo BARBAZ'' ! 1) = codepoints ''BARBAZ''"
    by (simp add: split_foo_barbaz upper_barbaz)
  have m: "codepoints ''BARBAZ'' \<in> AcqType_names [codepoints ''BARBAZ'']"
    by (simp add: AcqType_names_def)
  from type_of_recording_acquisition_system [OF a, of "[codepoints ''BARBAZ'']"] n m
  obtain t where t: "type_of_recording [codepoints ''BARBAZ''] header_foo_barbaz = Inr t"
    and "AcqType_name t = codepoints ''BARBAZ''"
    by auto
  have 1: "type_of_recording [codepoints ''BARBAZ''] header_foo_barbaz
      = Inr (OtherMember (codepoints ''BARBAZ''))"
    by (simp add: type_of_recording_def header_foo_barbaz_def dom_def split_foo_barbaz
        upper_barbaz AcqType_getitem_def codepoints_def)
  have 2: "type_of_recording [] header_foo_barbaz = Inl KeyError"
    using type_of_recording_acquisition_system [OF a, of "[]"] n barbaz_not_member by simp
  show ?thesis
    using 1 2 by simp
qed

subsection \<open>The choice of the date patterns\<close>

lemma cheetah_560_order:
  assumes "version_eq av (release_version [5, 6, 0])"
  shows "\<not> version_le av (release_version [2])" "\<not> version_lt av (release_version [5])"
    "\<not> version_le av (release_version [5, 4, 0])"
  using assms
  by (simp_all add: version_eq_def version_le_def version_lt_def cmpkey_def release_version_def strip_zeros_def)

text \<open>
  C4. For application name \<open>Cheetah\<close> and a version equal to 5.6.0, \<open>readTimeDate\<close>
  takes the dictionary \<open>inHeader\<close>, and so never the dictionary \<open>v5.4.0\<close>.
\<close>

theorem cheetah_560_selects_inHeader:
  assumes "h ''ApplicationName'' = Some (VStr ''Cheetah'')"
    and "h ''ApplicationVersion'' = Some (VVersion av)"
    and "version_eq av (release_version [5, 6, 0])"
  shows "readTimeDate_dialect h = Inr inHeader \<and> readTimeDate_dialect h \<noteq> Inr v5_4_0"
  using assms cheetah_560_order [OF assms(3)] by (simp add: readTimeDate_dialect_def)

theorem cheetah_560_selects_inHeader_witness:
  "version_eq (release_version [5, 6]) (release_version [5, 6, 0])
   \<and> readTimeDate_dialect header_cheetah_56 = Inr inHeader
   \<and> readTimeDate_dialect header_cheetah_56 \<noteq> Inr v5_4_0"
proof -
  have a: "header_cheetah_56 ''ApplicationName'' = Some (VStr ''Cheetah'')"
    "header_cheetah_56 ''ApplicationVersion'' = Some (VVersion (release_version [5, 6]))"
    by (simp_all add: header_cheetah_56_def)
  have e: "version_eq (release_version [5, 6]) (release_version [5, 6, 0])"
    by (simp add: version_eq_def cmpkey_def release_version_def strip_zeros_def)
  show ?thesis
    using e cheetah_560_selects_inHeader [OF a e] by simp
qed

subsection \<open>The entries that each pass writes\<close>

lemma list_times_single: "list_times [x] n = replicate n x"
  by (induction n) (simp_all add: list_times_def)

lemma length_list_times_single [simp]: "length (list_times [x] n) = n"
  by (simp add: list_times_single)

lemma those_replicate: "f t = Some x \<Longrightarrow> those (map f (replicate n t)) = Some (replicate n x)"
  by (induction n) simp_all

lemma those_length: "those l = Some xs \<Longrightarrow> length xs = length l"
  by (induction l arbitrary: xs) (auto split: option.splits)

lemma microvolts_of_length: "microvolts_of lib es = Inr l \<Longrightarrow> length l = length es"
  by (auto simp: microvolts_of_def dest: those_length split: option.splits)

lemma ints_of_length: "ints_of lib es = Inr l \<Longrightarrow> length l = length es"
  by (auto simp: ints_of_def dest: those_length split: option.splits)

lemma setBitToMicroVolt_shape:
  assumes "setBitToMicroVolt lib h = Inr h'"
  shows "h' = h \<or> (\<exists>l. h' = h(''bit_to_microVolt'' \<mapsto> VFloatList l))"
proof (cases "h ''bit_to_microVolt''")
  case None
  then show ?thesis using assms by (simp add: setBitToMicroVolt_def)
next
  case (Some v)
  then show ?thesis
    using assms unfolding setBitToMicroVolt_def Let_def
    by (auto simp: bindE_eq_Inr split: if_splits)
qed

lemma setInputRanges_shape:
  assumes "setInputRanges lib n h = Inr h'"
  shows "h' = h \<or> (\<exists>l. h' = h(''InputRange'' \<mapsto> VIntList l))"
proof (cases "h ''InputRange''")
  case None
  then show ?thesis using assms by (simp add: setInputRanges_def)
next
  case (Some v)
  then show ?thesis
    using assms unfolding setInputRanges_def Let_def
    by (auto simp: bindE_eq_Inr split: if_splits)
qed

lemma readTimeDate_open_shape:
  "readTimeDate_open lib d txt h = Inr h' \<Longrightarrow> \<exists>v. h' = h(''recording_opened'' \<mapsto> v)"
  unfolding readTimeDate_open_def by (cases "re_search (datetime1_regex d) txt") auto

lemma readTimeDate_close_shape:
  "readTimeDate_close lib d txt h = Inr h' \<Longrightarrow> h' = h \<or> (\<exists>v. h' = h(''recording_closed'' \<mapsto> v))"
  unfolding readTimeDate_close_def
  by (cases "datetime2_regex d"; cases "re_search (the (datetime2_regex d)) txt") auto

lemma readTimeDate_other:
  assumes "readTimeDate lib txt h = Inr h'" and "k \<noteq> ''recording_opened''" and "k \<noteq> ''recording_closed''"
  shows "h' k = h k"
proof -
  from assms(1) obtain d h1 where "readTimeDate_open lib d txt h = Inr h1"
    and "readTimeDate_close lib d txt h1 = Inr h'"
    unfolding readTimeDate_def by (auto simp: bindE_eq_Inr)
  then show ?thesis
    using assms(2,3) by (auto dest!: readTimeDate_open_shape readTimeDate_close_shape)
qed

lemma setApplicationAndVersion_shape:
  assumes "setApplicationAndVersion lib h = Inr h'"
  shows "\<exists>a v. h' = h(''ApplicationName'' \<mapsto> VStr a, ''ApplicationVersion'' \<mapsto> VVersion v)"
  using assms unfolding setApplicationAndVersion_def Let_def
  by (auto simp: bindE_eq_Inr split: if_splits option.splits)

lemma setApplicationAndVersion_both:
  "''CheetahRev'' \<in> dom h \<Longrightarrow> ''ApplicationName'' \<in> dom h
   \<Longrightarrow> setApplicationAndVersion lib h = Inl AssertionError"
  by (simp add: setApplicationAndVersion_def)

lemma convert_channel_ids_names_other:
  assumes "convert_channel_ids_names lib h = Inr (h', n)"
    and "k \<noteq> ''channel_ids''" and "k \<noteq> ''channel_names''"
  shows "h' k = h k"
  using assms unfolding convert_channel_ids_names_def Let_def
  by (auto simp: bindE_eq_Inr split: if_splits option.splits)

lemma convert_channel_ids_names_absent:
  assumes "convert_channel_ids_names lib h = Inr (h', n)" and "h ''channel_ids'' = None"
  shows "h' ''channel_ids'' = Some (VStrList [''unknown'']) \<and> n = 0"
  using assms unfolding convert_channel_ids_names_def Let_def
  by (auto simp: bindE_eq_Inr split: if_splits option.splits)

subsection \<open>The conversion factors\<close>

lemma those_replicate_Some: "those (replicate n (Some x)) = Some (replicate n x)"
  by (induction n) simp_all

text \<open>
  C7. Let the header hold a string under \<open>bit_to_microVolt\<close> and a list of \<open>n\<close> channel
  ids. If the string has exactly one whitespace-separated token and \<open>float\<close> reads it as
  \<open>x\<close>, the pass stores the list of \<open>n\<close> copies of \<open>x * 1e6\<close> (four copies for four
  channel ids). With any other number of tokens that \<open>float\<close> reads, it stores every value
  times \<open>1e6\<close> when there are \<open>n\<close> of them and fails with \<open>AssertionError\<close> otherwise.
  Whenever the pass returns, the stored list has length \<open>n\<close>.
\<close>

theorem setBitToMicroVolt_replicates_and_scales:
  assumes "h ''bit_to_microVolt'' = Some (VStr s)"
    and "h ''channel_ids'' = Some ids" and "py_len ids = Inr n"
  shows "(\<forall>t x. findall [Item CNonSpace Plus] s = [t] \<and> py_float lib t = Some x \<longrightarrow>
            setBitToMicroVolt lib h =
              Inr (h(''bit_to_microVolt'' \<mapsto> VFloatList (replicate n (fmul lib x (f1e6 lib))))))
       \<and> (\<forall>xs. length (findall [Item CNonSpace Plus] s) \<noteq> 1
              \<and> those (map (py_float lib) (findall [Item CNonSpace Plus] s)) = Some xs \<longrightarrow>
            setBitToMicroVolt lib h =
              (if length xs = n
               then Inr (h(''bit_to_microVolt'' \<mapsto> VFloatList (map (\<lambda>x. fmul lib x (f1e6 lib)) xs)))
               else Inl AssertionError))
       \<and> (\<forall>h'. setBitToMicroVolt lib h = Inr h' \<longrightarrow>
            (\<exists>l. h' ''bit_to_microVolt'' = Some (VFloatList l) \<and> length l = n))"
proof (intro conjI allI impI)
  fix t x
  assume a: "findall [Item CNonSpace Plus] s = [t] \<and> py_float lib t = Some x"
  then have "microvolts_of lib (list_times [t] n) = Inr (replicate n (fmul lib x (f1e6 lib)))"
    by (simp add: microvolts_of_def list_times_single those_replicate_Some)
  then show "setBitToMicroVolt lib h =
      Inr (h(''bit_to_microVolt'' \<mapsto> VFloatList (replicate n (fmul lib x (f1e6 lib)))))"
    using a assms by (simp add: setBitToMicroVolt_def)
next
  fix xs
  assume a: "length (findall [Item CNonSpace Plus] s) \<noteq> 1
     \<and> those (map (py_float lib) (findall [Item CNonSpace Plus] s)) = Some xs"
  then have "microvolts_of lib (findall [Item CNonSpace Plus] s) =
      Inr (map (\<lambda>x. fmul lib x (f1e6 lib)) xs)"
    by (simp add: microvolts_of_def)
  then show "setBitToMicroVolt lib h =
      (if length xs = n
       then Inr (h(''bit_to_microVolt'' \<mapsto> VFloatList (map (\<lambda>x. fmul lib x (f1e6 lib)) xs)))
       else Inl AssertionError)"
    using a assms by (simp add: setBitToMicroVolt_def)
next
  fix h'
  assume "setBitToMicroVolt lib h = Inr h'"
  then show "\<exists>l. h' ''bit_to_microVolt'' = Some (VFloatList l) \<and> length l = n"
    using assms unfolding setBitToMicroVolt_def Let_def
    by (auto simp: bindE_eq_Inr split: if_splits)
qed

subsection \<open>The constructor as a sequence of passes\<close>

lemma NlxHeader_init_steps:
  assumes "NlxHeader_init lib file_bytes props_only = Inr h"
  obtains h1 h2 n h3 h4 h5 where
    "read_properties lib (strip_nul (take HEADER_SIZE file_bytes)) Map.empty = Inr h1"
    "convert_channel_ids_names lib h1 = Inr (h2, n)"
    "setApplicationAndVersion lib h2 = Inr h3"
    "setBitToMicroVolt lib h3 = Inr h4"
    "setInputRanges lib n h4 = Inr h5"
    "if props_only then h = h5
     else readTimeDate lib (strip_nul (take HEADER_SIZE file_bytes)) h5 = Inr h"
  using assms unfolding NlxHeader_init_def Let_def
  by (auto simp: bindE_eq_Inr split: if_splits)

text \<open>
  C9. Whenever the constructor returns a header, the header has a string under
  \<open>ApplicationName\<close> and a version under \<open>ApplicationVersion\<close>.
\<close>

theorem application_name_and_version_present:
  assumes "NlxHeader_init lib file_bytes props_only = Inr h"
  shows "\<exists>a v. h ''ApplicationName'' = Some (VStr a) \<and> h ''ApplicationVersion'' = Some (VVersion v)"
proof -
  from assms obtain h1 h2 n h3 h4 h5 where
    s3: "setApplicationAndVersion lib h2 = Inr h3" and
    s4: "setBitToMicroVolt lib h3 = Inr h4" and
    s5: "setInputRanges lib n h4 = Inr h5" and
    s6: "if props_only then h = h5
         else readTimeDate lib (strip_nul (take HEADER_SIZE file_bytes)) h5 = Inr h"
    by (rule NlxHeader_init_steps)
  from setApplicationAndVersion_shape [OF s3] obtain a v where
    "h3 ''ApplicationName'' = Some (VStr a)" "h3 ''ApplicationVersion'' = Some (VVersion v)"
    by auto
  then have "h4 ''ApplicationName'' = Some (VStr a)" "h4 ''ApplicationVersion'' = Some (VVersion v)"
    using setBitToMicroVolt_shape [OF s4] by auto
  then have 5: "h5 ''ApplicationName'' = Some (VStr a)" "h5 ''ApplicationVersion'' = Some (VVersion v)"
    using setInputRanges_shape [OF s5] by auto
  have "h ''ApplicationName'' = h5 ''ApplicationName'' \<and> h ''ApplicationVersion'' = h5 ''ApplicationVersion''"
  proof (cases props_only)
    case True
    then show ?thesis using s6 by simp
  next
    case False
    then have r: "readTimeDate lib (strip_nul (take HEADER_SIZE file_bytes)) h5 = Inr h"
      using s6 by simp
    show ?thesis
      using readTimeDate_other [OF r, of "''ApplicationName''"]
        readTimeDate_other [OF r, of "''ApplicationVersion''"] by simp
  qed
  then show ?thesis
    using 5 by simp
qed

lemma init_fails_on_both:
  assumes "read_properties lib (strip_nul (take HEADER_SIZE file_bytes)) Map.empty = Inr h1"
    and "''CheetahRev'' \<in> dom h1" and "''ApplicationName'' \<in> dom h1"
  shows "\<exists>e. NlxHeader_init lib file_bytes props_only = Inl e"
proof (cases "convert_channel_ids_names lib h1")
  case (Inl e)
  then show ?thesis
    using assms(1) by (simp add: NlxHeader_init_def)
next
  case (Inr r)
  obtain h2 n where r: "r = (h2, n)"
    by (cases r)
  have c: "convert_channel_ids_names lib h1 = Inr (h2, n)"
    using Inr r by simp
  have "h2 ''CheetahRev'' = h1 ''CheetahRev''" "h2 ''ApplicationName'' = h1 ''ApplicationName''"
    using convert_channel_ids_names_other [OF c, of "''CheetahRev''"]
      convert_channel_ids_names_other [OF c, of "''ApplicationName''"] by simp_all
  then have "''CheetahRev'' \<in> dom h2" "''ApplicationName'' \<in> dom h2"
    using assms(2,3) by (auto simp: dom_def)
  then have "setApplicationAndVersion lib h2 = Inl AssertionError"
    by (rule setApplicationAndVersion_both)
  then show ?thesis
    using assms(1) Inr r by (simp add: NlxHeader_init_def)
qed

lemma setInputRanges_single:
  assumes "h ''InputRange'' = Some (VStr s)" and "findall [Item CWord Plus] s = [t]"
  shows "setInputRanges lib m h =
    (case py_int lib t of
       None \<Rightarrow> Inl ValueError
     | Some i \<Rightarrow> Inr (h(''InputRange'' \<mapsto> VIntList (replicate m i))))"
  using assms
  by (simp add: setInputRanges_def ints_of_def list_times_single split: option.splits)

subsection \<open>Evaluating the matcher and the passes on the samples\<close>

lemma rmatch_char_Cons: "rmatch (Item (CChar c) One # p) (x # t) pos ops caps = (if x = c then rmatch p t (Suc pos) ops caps else None)"
  by (simp split: option.split)
lemma rmatch_char_Nil: "rmatch (Item (CChar c) One # p) [] pos ops caps = None"
  by simp
lemma isspace_iff: "isspace c \<longleftrightarrow> c \<in> {CHR 0x09, CHR 0x0A, CHR 0x0B, CHR 0x0C, CHR 0x0D, CHR 0x1C, CHR 0x1D, CHR 0x1E, CHR 0x1F, CHR '' '', CHR 0x85, CHR 0xA0}"
proof -
  have "isspace c \<longleftrightarrow> (of_char c :: nat) \<in> {9,10,11,12,13,28,29,30,31,32,133,160}"
    unfolding isspace_def Let_def by auto
  also have "\<dots> \<longleftrightarrow> (of_char c :: nat) \<in> of_char ` {CHR 0x09, CHR 0x0A, CHR 0x0B, CHR 0x0C, CHR 0x0D, CHR 0x1C, CHR 0x1D, CHR 0x1E, CHR 0x1F, CHR '' '', CHR 0x85, CHR 0xA0}"
    by simp
  also have "\<dots> \<longleftrightarrow> c \<in> {CHR 0x09, CHR 0x0A, CHR 0x0B, CHR 0x0C, CHR 0x0D, CHR 0x1C, CHR 0x1D, CHR 0x1E, CHR 0x1F, CHR '' '', CHR 0x85, CHR 0xA0}"
    by (rule inj_image_mem_iff) (simp add: inj_on_def)
  finally show ?thesis .
qed
lemma rmatch_Star: "rmatch (Item c Star # p) s pos ops caps =
     first_some (\<lambda>k. rmatch p (drop k s) (pos + k) ops caps) 0 (length (takeWhile (in_cset c) s))"
  by simp
lemma rmatch_Plus: "rmatch (Item c Plus # p) s pos ops caps =
     first_some (\<lambda>k. rmatch p (drop k s) (pos + k) ops caps) 1 (length (takeWhile (in_cset c) s))"
  by simp
lemma rmatch_Opt: "rmatch (Item c Opt # p) s pos ops caps =
     first_some (\<lambda>k. rmatch p (drop k s) (pos + k) ops caps) 0 (min 1 (length (takeWhile (in_cset c) s)))"
  by simp
lemma first_some_weak_cong: "lo = lo' \<Longrightarrow> n = n' \<Longrightarrow> first_some f lo n = first_some f lo' n'" by simp
lemma bindE_weak_cong: "m = m' \<Longrightarrow> bindE m f = bindE m' f" by simp
lemma first_some_numeral: "first_some f lo (numeral k) = first_some f lo (Suc (pred_numeral k))"
  by (simp only: numeral_eq_Suc)
lemma re_search_skip: "x \<noteq> c \<Longrightarrow> re_search (Item (CChar c) One # p) (x # t) = re_search (Item (CChar c) One # p) t"
  by (simp add: rmatch_char_Cons)
lemma findall_skip_Cons:
  "x \<noteq> c \<Longrightarrow> findall_matches (Item (CChar c) One # p) (x # t) = findall_matches (Item (CChar c) One # p) t"
  by (simp add: rmatch_char_Cons)
lemma findall_none:
  "c \<notin> set a \<Longrightarrow> findall_matches (Item (CChar c) One # p) a = []"
  by (induction a) (auto simp: rmatch_char_Cons rmatch_char_Nil simp del: rmatch.simps)
lemma findall_skip_app:
  "c \<notin> set a \<Longrightarrow> findall_matches (Item (CChar c) One # p) (a @ b) = findall_matches (Item (CChar c) One # p) b"
  by (induction a) (auto simp: rmatch_char_Cons simp del: rmatch.simps)
lemmas regex_eval = rmatch_char_Cons rmatch_char_Nil rmatch_Star rmatch_Plus rmatch_Opt lit_def grp_def nonspace_group_def
  isspace_iff mk_match_def rgroup_def Let_def first_some_numeral datetime_text_def


lemma no_dash: "CHR ''-'' \<notin> set line_opened" "CHR ''-'' \<notin> set line_closed"
  by (simp_all add: line_opened_def line_closed_def)

lemmas props_eval = regex_eval property_pattern_def findall2_def rstrip_blank_def convert_def
  findall_skip_Cons findall_skip_app findall_none no_dash read_properties_def txt_header_keys_def

lemma read_neuraview:
  "read_properties sample_lib file_neuraview Map.empty = Inr [''InputRange'' \<mapsto> VStr ''7'']"
  unfolding file_neuraview_def
  by (simp add: props_eval del: rmatch.simps(4) cong: first_some_weak_cong)

lemma channels_neuraview:
  "convert_channel_ids_names sample_lib [''InputRange'' \<mapsto> VStr ''7''] =
     Inr ([''InputRange'' \<mapsto> VStr ''7'', ''channel_ids'' \<mapsto> VStrList [''unknown''],
           ''channel_names'' \<mapsto> VStrList [''unknown'']], 0)"
  by (simp add: convert_channel_ids_names_def list_times_def)

lemma application_neuraview:
  "setApplicationAndVersion sample_lib
     [''InputRange'' \<mapsto> VStr ''7'', ''channel_ids'' \<mapsto> VStrList [''unknown''],
      ''channel_names'' \<mapsto> VStrList [''unknown'']] =
   Inr [''InputRange'' \<mapsto> VStr ''7'', ''channel_ids'' \<mapsto> VStrList [''unknown''],
        ''channel_names'' \<mapsto> VStrList [''unknown''],
        ''ApplicationName'' \<mapsto> VStr ''Neuraview'',
        ''ApplicationVersion'' \<mapsto> VVersion (release_version [2])]"
  by (simp add: setApplicationAndVersion_def sample_lib_def startswith_def)

lemma microvolt_neuraview:
  "setBitToMicroVolt sample_lib
     [''InputRange'' \<mapsto> VStr ''7'', ''channel_ids'' \<mapsto> VStrList [''unknown''],
        ''channel_names'' \<mapsto> VStrList [''unknown''],
        ''ApplicationName'' \<mapsto> VStr ''Neuraview'',
        ''ApplicationVersion'' \<mapsto> VVersion (release_version [2])] =
   Inr [''InputRange'' \<mapsto> VStr ''7'', ''channel_ids'' \<mapsto> VStrList [''unknown''],
        ''channel_names'' \<mapsto> VStrList [''unknown''],
        ''ApplicationName'' \<mapsto> VStr ''Neuraview'',
        ''ApplicationVersion'' \<mapsto> VVersion (release_version [2])]"
  by (simp add: setBitToMicroVolt_def)

lemma words_7: "findall [Item CWord Plus] ''7'' = [''7'']"
  by code_simp

lemma ranges_neuraview:
  "setInputRanges sample_lib 0
     [''InputRange'' \<mapsto> VStr ''7'', ''channel_ids'' \<mapsto> VStrList [''unknown''],
        ''channel_names'' \<mapsto> VStrList [''unknown''],
        ''ApplicationName'' \<mapsto> VStr ''Neuraview'',
        ''ApplicationVersion'' \<mapsto> VVersion (release_version [2])] =
   Inr [''InputRange'' \<mapsto> VIntList [], ''channel_ids'' \<mapsto> VStrList [''unknown''],
        ''channel_names'' \<mapsto> VStrList [''unknown''],
        ''ApplicationName'' \<mapsto> VStr ''Neuraview'',
        ''ApplicationVersion'' \<mapsto> VVersion (release_version [2])]"
  by (simp add: setInputRanges_def words_7 ints_of_def sample_lib_def list_times_def fun_upd_twist)

lemma strip_nul_id: "s \<noteq> [] \<Longrightarrow> hd s \<noteq> CHR 0x00 \<Longrightarrow> last s \<noteq> CHR 0x00 \<Longrightarrow> strip_nul s = s"
proof -
  assume a: "s \<noteq> []" "hd s \<noteq> CHR 0x00" "last s \<noteq> CHR 0x00"
  have 1: "dropWhile (\<lambda>c. c = CHR 0x00) s = s"
    using a(1,2) by (cases s) simp_all
  have "hd (rev s) \<noteq> CHR 0x00"
    using a(1,3) by (simp add: hd_rev)
  then have 2: "dropWhile (\<lambda>c. c = CHR 0x00) (rev s) = rev s"
    using a(1) by (cases "rev s") simp_all
  show ?thesis
    by (simp add: strip_nul_def 1 2)
qed

lemma length_lines: "length line_opened = 57" "length line_closed = 57"
  by (simp_all add: line_opened_def line_closed_def)

lemma last_line_closed: "line_closed \<noteq> []" "last line_closed = CHR ''2''"
  by (simp_all add: line_closed_def)

lemma header_text_neuraview: "strip_nul (take HEADER_SIZE file_neuraview) = file_neuraview"
proof -
  have "length file_neuraview \<le> HEADER_SIZE"
    by (simp add: file_neuraview_def length_lines HEADER_SIZE_def)
  then have "take HEADER_SIZE file_neuraview = file_neuraview"
    by simp
  moreover have "strip_nul file_neuraview = file_neuraview"
    by (rule strip_nul_id) (simp_all add: file_neuraview_def last_line_closed)
  ultimately show ?thesis
    by simp
qed

lemma no_marker_neuraview: "startswith file_neuraview ''########'' = False"
  by (simp add: startswith_def file_neuraview_def)

lemma re_search_skip_app:
  "c \<notin> set a \<Longrightarrow> re_search (Item (CChar c) One # p) (a @ b) = re_search (Item (CChar c) One # p) b"
  by (induction a) (auto simp: rmatch_char_Cons simp del: rmatch.simps)

lemma re_search_none:
  "c \<notin> set a \<Longrightarrow> re_search (Item (CChar c) One # p) a = None"
  by (induction a) (auto simp: rmatch_char_Cons rmatch_char_Nil simp del: rmatch.simps)

lemmas search_eval = regex_eval re_search_skip

lemma dialect_neuraview_parsed:
  "readTimeDate_dialect
     [''InputRange'' \<mapsto> VIntList [], ''channel_ids'' \<mapsto> VStrList [''unknown''],
        ''channel_names'' \<mapsto> VStrList [''unknown''],
        ''ApplicationName'' \<mapsto> VStr ''Neuraview'',
        ''ApplicationVersion'' \<mapsto> VVersion (release_version [2])] = Inr neuraview2"
  by (simp add: readTimeDate_dialect_def)

lemma search_opened_neuraview:
  "re_search (datetime1_regex (header_pattern_dicts neuraview2)) file_neuraview =
     Some \<lparr>whole = line_opened, groups = [(2, ''15:58:32''), (1, ''12/14/2015'')]\<rparr>"
  unfolding file_neuraview_def line_opened_def line_closed_def
  by (simp add: search_eval del: rmatch.simps(4) cong: first_some_weak_cong)

lemma search_closed_neuraview:
  "\<exists>p. datetime2_regex (header_pattern_dicts neuraview2) = Some p \<and> re_search p file_neuraview =
     Some \<lparr>whole = line_closed, groups = [(2, ''15:58:32''), (1, ''12/14/2015'')]\<rparr>"
  unfolding file_neuraview_def line_opened_def line_closed_def
  by (simp add: search_eval del: rmatch.simps(4) cong: first_some_weak_cong)

lemma dates_neuraview:
  "readTimeDate sample_lib file_neuraview
     [''InputRange'' \<mapsto> VIntList [], ''channel_ids'' \<mapsto> VStrList [''unknown''],
        ''channel_names'' \<mapsto> VStrList [''unknown''],
        ''ApplicationName'' \<mapsto> VStr ''Neuraview'',
        ''ApplicationVersion'' \<mapsto> VVersion (release_version [2])] = Inr header_parsed"
proof -
  obtain p where p: "datetime2_regex (header_pattern_dicts neuraview2) = Some p"
    "re_search p file_neuraview =
       Some \<lparr>whole = line_closed, groups = [(2, ''15:58:32''), (1, ''12/14/2015'')]\<rparr>"
    using search_closed_neuraview by blast
  have f: "datetimeformat (header_pattern_dicts neuraview2) = ''%m/%d/%Y %H:%M:%S''"
    by simp
  have dt: "\<And>w. datetime_text \<lparr>whole = w, groups = [(2, ''15:58:32''), (1, ''12/14/2015'')]\<rparr>
      = ''12/14/2015 15:58:32''"
    by (simp add: datetime_text_def rgroup_def)
  have st: "strptime sample_lib ''12/14/2015 15:58:32'' ''%m/%d/%Y %H:%M:%S''
      = Some [2015, 12, 14, 15, 58, 32, 0]"
    by (simp add: sample_lib_def)
  show ?thesis
    unfolding readTimeDate_def dialect_neuraview_parsed bindE_Inr readTimeDate_open_def
      readTimeDate_close_def search_opened_neuraview p f dt st option.case header_parsed_def
    by (rule refl)
qed

lemma init_neuraview: "NlxHeader_init sample_lib file_neuraview False = Inr header_parsed"
  unfolding NlxHeader_init_def Let_def header_text_neuraview read_neuraview bindE_Inr
    channels_neuraview prod.case application_neuraview microvolt_neuraview ranges_neuraview
  by (simp add: dates_neuraview)

lemma read_bad_input_range:
  "read_properties sample_lib file_bad_input_range Map.empty = Inr [''InputRange'' \<mapsto> VStr ''abc'']"
  unfolding file_bad_input_range_def
  by (simp add: props_eval del: rmatch.simps(4) cong: first_some_weak_cong)

lemma words_abc: "findall [Item CWord Plus] ''abc'' = [''abc'']"
  by code_simp

lemma header_text_bad_input_range:
  "strip_nul (take HEADER_SIZE file_bad_input_range) = file_bad_input_range"
  by (simp add: file_bad_input_range_def HEADER_SIZE_def strip_nul_def)

lemma init_bad_input_range:
  "NlxHeader_init sample_lib file_bad_input_range True = Inl ValueError"
  unfolding NlxHeader_init_def Let_def header_text_bad_input_range read_bad_input_range bindE_Inr
  by (simp add: convert_channel_ids_names_def list_times_def setApplicationAndVersion_def
      sample_lib_def startswith_def setBitToMicroVolt_def setInputRanges_def words_abc ints_of_def)

subsection \<open>The leading marker\<close>

text \<open>
  C1. The constructor is given a file whose header text does not begin with eight
  \<open>#\<close> characters, with \<open>props_only = False\<close>, and returns a header: no error is
  raised for the missing marker.
\<close>

theorem init_returns_without_marker:
  "startswith (strip_nul (take HEADER_SIZE file_neuraview)) ''########'' = False
   \<and> NlxHeader_init sample_lib file_neuraview False = Inr header_parsed"
  by (simp only: header_text_neuraview no_marker_neuraview init_neuraview simp_thms)

theorem application_name_and_version_present_witness:
  "NlxHeader_init sample_lib file_neuraview False = Inr header_parsed
   \<and> (\<exists>a v. header_parsed ''ApplicationName'' = Some (VStr a)
        \<and> header_parsed ''ApplicationVersion'' = Some (VVersion v))"
  using init_neuraview application_name_and_version_present [OF init_neuraview] by simp

theorem setBitToMicroVolt_replicates_and_scales_witness:
  "header_four_channels ''bit_to_microVolt'' = Some (VStr ''2'')
   \<and> header_four_channels ''channel_ids'' = Some (VIntList [0, 1, 2, 3])
   \<and> findall [Item CNonSpace Plus] ''2'' = [''2''] \<and> py_float sample_lib ''2'' = Some 2
   \<and> setBitToMicroVolt sample_lib header_four_channels =
       Inr (header_four_channels(''bit_to_microVolt'' \<mapsto>
         VFloatList [2000000, 2000000, 2000000, 2000000]))"
proof -
  have a: "header_four_channels ''bit_to_microVolt'' = Some (VStr ''2'')"
    "header_four_channels ''channel_ids'' = Some (VIntList [0, 1, 2, 3])"
    "py_len (VIntList [0, 1, 2, 3] :: (int, nat list) pyval) = Inr 4"
    by (simp_all add: header_four_channels_def)
  have t: "findall [Item CNonSpace Plus] ''2'' = [''2'']"
    by code_simp
  have x: "py_float sample_lib ''2'' = Some 2"
    by (simp add: sample_lib_def)
  have r: "replicate 4 (fmul sample_lib 2 (f1e6 sample_lib)) = [2000000, 2000000, 2000000, 2000000]"
    by (simp add: sample_lib_def numeral_eq_Suc)
  from setBitToMicroVolt_replicates_and_scales
    [of header_four_channels "''2''" "VIntList [0, 1, 2, 3]" 4 sample_lib] a t x
  have "setBitToMicroVolt sample_lib header_four_channels =
      Inr (header_four_channels(''bit_to_microVolt'' \<mapsto>
        VFloatList (replicate 4 (fmul sample_lib 2 (f1e6 sample_lib)))))"
    by blast
  then show ?thesis
    using a t x r by simp
qed

subsection \<open>A single input range without channel ids\<close>

text \<open>
  C10, as the code has it. Let the dictionary read from the header hold a string with exactly
  one word under \<open>InputRange\<close> and nothing under \<open>channel_ids\<close>. Whenever the constructor
  returns, \<open>InputRange\<close> is the empty list, \<open>channel_ids\<close> is the list
  \<open>["unknown"]\<close>, and \<open>int\<close> has read the word; when \<open>int\<close> rejects the word, the
  constructor fails.
\<close>

theorem single_input_range_without_channel_ids:
  assumes "read_properties lib (strip_nul (take HEADER_SIZE file_bytes)) Map.empty = Inr h1"
    and "h1 ''InputRange'' = Some (VStr s)" and "findall [Item CWord Plus] s = [t]"
    and "h1 ''channel_ids'' = None"
  shows "(\<forall>h. NlxHeader_init lib file_bytes props_only = Inr h \<longrightarrow>
            h ''InputRange'' = Some (VIntList []) \<and> h ''channel_ids'' = Some (VStrList [''unknown''])
            \<and> py_int lib t \<noteq> None)
       \<and> (py_int lib t = None \<longrightarrow> (\<exists>e. NlxHeader_init lib file_bytes props_only = Inl e))"
proof -
  have first: "h ''InputRange'' = Some (VIntList []) \<and> h ''channel_ids'' = Some (VStrList [''unknown''])
      \<and> py_int lib t \<noteq> None"
    if init: "NlxHeader_init lib file_bytes props_only = Inr h" for h
  proof -
    from init obtain h1' h2 n h3 h4 h5 where
      s1: "read_properties lib (strip_nul (take HEADER_SIZE file_bytes)) Map.empty = Inr h1'" and
      s2: "convert_channel_ids_names lib h1' = Inr (h2, n)" and
      s3: "setApplicationAndVersion lib h2 = Inr h3" and
      s4: "setBitToMicroVolt lib h3 = Inr h4" and
      s5: "setInputRanges lib n h4 = Inr h5" and
      s6: "if props_only then h = h5
           else readTimeDate lib (strip_nul (take HEADER_SIZE file_bytes)) h5 = Inr h"
      by (rule NlxHeader_init_steps)
    have e: "h1' = h1"
      using s1 assms(1) by simp
    have s2': "convert_channel_ids_names lib h1 = Inr (h2, n)"
      using s2 e by simp
    have n: "h2 ''channel_ids'' = Some (VStrList [''unknown''])" "n = 0"
      using convert_channel_ids_names_absent [OF s2' assms(4)] by simp_all
    have 2: "h2 ''InputRange'' = Some (VStr s)"
      using convert_channel_ids_names_other [OF s2', of "''InputRange''"] assms(2) by simp
    obtain a v where h3: "h3 = h2(''ApplicationName'' \<mapsto> VStr a, ''ApplicationVersion'' \<mapsto> VVersion v)"
      using setApplicationAndVersion_shape [OF s3] by blast
    have 3: "h3 ''InputRange'' = Some (VStr s)" "h3 ''channel_ids'' = Some (VStrList [''unknown''])"
      unfolding h3 using 2 n(1) by simp_all
    have "h4 = h3 \<or> (\<exists>l. h4 = h3(''bit_to_microVolt'' \<mapsto> VFloatList l))"
      by (rule setBitToMicroVolt_shape [OF s4])
    then have 4: "h4 ''InputRange'' = Some (VStr s)" "h4 ''channel_ids'' = Some (VStrList [''unknown''])"
      using 3 by auto
    have s5': "setInputRanges lib 0 h4 =
        (case py_int lib t of None \<Rightarrow> Inl ValueError
         | Some i \<Rightarrow> Inr (h4(''InputRange'' \<mapsto> VIntList (replicate 0 i))))"
      using setInputRanges_single [of h4 s t lib 0] 4(1) assms(3) by simp
    have p: "py_int lib t \<noteq> None"
      using s5 s5' n(2) by (cases "py_int lib t") simp_all
    then have "h5 = h4(''InputRange'' \<mapsto> VIntList [])"
      using s5 s5' n(2) by (cases "py_int lib t") simp_all
    then have 5: "h5 ''InputRange'' = Some (VIntList [])" "h5 ''channel_ids'' = Some (VStrList [''unknown''])"
      using 4 by simp_all
    have "h ''InputRange'' = h5 ''InputRange'' \<and> h ''channel_ids'' = h5 ''channel_ids''"
    proof (cases props_only)
      case True
      then show ?thesis using s6 by simp
    next
      case False
      then have r: "readTimeDate lib (strip_nul (take HEADER_SIZE file_bytes)) h5 = Inr h"
        using s6 by simp
      show ?thesis
        using readTimeDate_other [OF r, of "''InputRange''"]
          readTimeDate_other [OF r, of "''channel_ids''"] by simp
    qed
    then show ?thesis
      using 5 p by simp
  qed
  have second: "\<exists>e. NlxHeader_init lib file_bytes props_only = Inl e" if "py_int lib t = None"
  proof (cases "NlxHeader_init lib file_bytes props_only")
    case (Inl e)
    then show ?thesis by blast
  next
    case (Inr h)
    then show ?thesis
      using first [OF Inr] that by simp
  qed
  show ?thesis
    using first second by blast
qed

theorem single_input_range_without_channel_ids_witness:
  "read_properties sample_lib (strip_nul (take HEADER_SIZE file_neuraview)) Map.empty
      = Inr [''InputRange'' \<mapsto> VStr ''7'']
   \<and> findall [Item CWord Plus] ''7'' = [''7'']
   \<and> NlxHeader_init sample_lib file_neuraview False = Inr header_parsed
   \<and> header_parsed ''InputRange'' = Some (VIntList [])
   \<and> header_parsed ''channel_ids'' = Some (VStrList [''unknown''])
   \<and> py_int sample_lib ''7'' \<noteq> None"
proof -
  have r: "read_properties sample_lib (strip_nul (take HEADER_SIZE file_neuraview)) Map.empty
      = Inr [''InputRange'' \<mapsto> VStr ''7'']"
    by (simp only: header_text_neuraview read_neuraview)
  have a: "[''InputRange'' \<mapsto> VStr ''7''] ''InputRange'' = Some (VStr ''7'' :: (int, nat list) pyval)"
    "[''InputRange'' \<mapsto> (VStr ''7'' :: (int, nat list) pyval)] ''channel_ids'' = None"
    by simp_all
  from single_input_range_without_channel_ids [OF r a(1) words_7 a(2), of False] init_neuraview
  have "header_parsed ''InputRange'' = Some (VIntList [])
      \<and> header_parsed ''channel_ids'' = Some (VStrList [''unknown''])
      \<and> py_int sample_lib ''7'' \<noteq> None"
    by blast
  then show ?thesis
    using r words_7 init_neuraview by simp
qed

text \<open>
  The claim as first stated, that the constructor succeeds on every such header, fails on
  the header \<open>-InputRange abc\<close>: \<open>int\<close> rejects the word \<open>abc\<close>.
\<close>

theorem single_input_range_counterexample:
  "read_properties sample_lib (strip_nul (take HEADER_SIZE file_bad_input_range)) Map.empty
      = Inr [''InputRange'' \<mapsto> VStr ''abc'']
   \<and> findall [Item CWord Plus] ''abc'' = [''abc'']
   \<and> NlxHeader_init sample_lib file_bad_input_range True = Inl ValueError"
  by (simp only: header_text_bad_input_range read_bad_input_range words_abc
      init_bad_input_range simp_thms)

subsection \<open>Opening and close times\<close>

lemma readTimeDate_close_missing:
  assumes "readTimeDate_dialect h = Inr k"
    and "datetime2_regex (header_pattern_dicts k) = Some p" and "re_search p txt = None"
  shows "readTimeDate lib txt h = Inl IOError"
proof (cases "readTimeDate_open lib (header_pattern_dicts k) txt h")
  case (Inl e)
  then have "e = IOError"
    by (auto simp: readTimeDate_open_def split: option.splits)
  then show ?thesis
    using assms(1) Inl by (simp add: readTimeDate_def)
next
  case (Inr h')
  then show ?thesis
    using assms by (simp add: readTimeDate_def readTimeDate_close_def)
qed

lemma readTimeDate_open_missing:
  assumes "readTimeDate_dialect h = Inr k"
    and "re_search (datetime1_regex (header_pattern_dicts k)) txt = None"
  shows "readTimeDate lib txt h = Inl IOError"
  using assms by (simp add: readTimeDate_def readTimeDate_open_def)

lemma readTimeDate_no_close_pattern:
  assumes "readTimeDate_dialect h = Inr k"
    and "datetime2_regex (header_pattern_dicts k) = None"
  shows "readTimeDate lib txt h = readTimeDate_open lib (header_pattern_dicts k) txt h"
  using assms
  by (cases "readTimeDate_open lib (header_pattern_dicts k) txt h")
    (simp_all add: readTimeDate_def readTimeDate_close_def)

lemma readTimeDate_open_unparseable:
  assumes "re_search (datetime1_regex d) txt = Some sr"
    and "strptime lib (datetime_text sr) (datetimeformat d) = None"
    and "\<forall>f2. datetime2format d = Some f2 \<longrightarrow> strptime lib (datetime_text sr) f2 = None"
  shows "readTimeDate_open lib d txt h = Inr (h(''recording_opened'' \<mapsto> VNone))"
  using assms by (cases "datetime2format d") (simp_all add: readTimeDate_open_def)

text \<open>
  C2, as the code has it. When the chosen dictionary has a pattern for the close time and
  the header text has no match for it, \<open>readTimeDate\<close> fails with \<open>IOError\<close>. When the
  chosen dictionary has no such pattern and the pattern for the opening time has a match,
  \<open>readTimeDate\<close> returns and writes \<open>recording_opened\<close> only, so that no close time is
  recorded.
\<close>

theorem close_time_pattern_policy:
  assumes "readTimeDate_dialect h = Inr k"
  shows "(\<forall>p. datetime2_regex (header_pattern_dicts k) = Some p \<and> re_search p txt = None \<longrightarrow>
            readTimeDate lib txt h = Inl IOError)
       \<and> (datetime2_regex (header_pattern_dicts k) = None
            \<and> re_search (datetime1_regex (header_pattern_dicts k)) txt \<noteq> None \<longrightarrow>
            (\<exists>v. readTimeDate lib txt h = Inr (h(''recording_opened'' \<mapsto> v))))"
proof (intro conjI allI impI)
  fix p
  assume "datetime2_regex (header_pattern_dicts k) = Some p \<and> re_search p txt = None"
  then show "readTimeDate lib txt h = Inl IOError"
    using readTimeDate_close_missing [OF assms] by blast
next
  assume a: "datetime2_regex (header_pattern_dicts k) = None
     \<and> re_search (datetime1_regex (header_pattern_dicts k)) txt \<noteq> None"
  then have "readTimeDate lib txt h = readTimeDate_open lib (header_pattern_dicts k) txt h"
    using readTimeDate_no_close_pattern [OF assms] by blast
  moreover have "\<exists>v. readTimeDate_open lib (header_pattern_dicts k) txt h
      = Inr (h(''recording_opened'' \<mapsto> v))"
    using a by (auto simp: readTimeDate_open_def)
  ultimately show "\<exists>v. readTimeDate lib txt h = Inr (h(''recording_opened'' \<mapsto> v))"
    by simp
qed

text \<open>
  C3, as the code has it. Let the header text have a match for the pattern of the opening
  time of the chosen dictionary, and let \<open>strptime\<close> reject the matched date and time under
  the first format and under the second format, if the dictionary has one. Then the step
  for the opening time writes \<open>None\<close> under \<open>recording_opened\<close> and raises nothing, and
  \<open>readTimeDate\<close> goes on with the step for the close time: it returns, with
  \<open>recording_opened\<close> still \<open>None\<close>, unless the dictionary has a pattern for the close
  time that has no match.
\<close>

theorem open_time_unparseable_is_none:
  assumes "readTimeDate_dialect h = Inr k"
    and "re_search (datetime1_regex (header_pattern_dicts k)) txt = Some sr"
    and "strptime lib (datetime_text sr) (datetimeformat (header_pattern_dicts k)) = None"
    and "\<forall>f2. datetime2format (header_pattern_dicts k) = Some f2 \<longrightarrow>
           strptime lib (datetime_text sr) f2 = None"
  shows "readTimeDate_open lib (header_pattern_dicts k) txt h = Inr (h(''recording_opened'' \<mapsto> VNone))
       \<and> readTimeDate lib txt h =
           readTimeDate_close lib (header_pattern_dicts k) txt (h(''recording_opened'' \<mapsto> VNone))
       \<and> ((\<forall>p. datetime2_regex (header_pattern_dicts k) = Some p \<longrightarrow> re_search p txt \<noteq> None) \<longrightarrow>
            (\<exists>h'. readTimeDate lib txt h = Inr h' \<and> h' ''recording_opened'' = Some VNone))"
proof -
  let ?d = "header_pattern_dicts k"
  have o: "readTimeDate_open lib ?d txt h = Inr (h(''recording_opened'' \<mapsto> VNone))"
    by (rule readTimeDate_open_unparseable [OF assms(2,3,4)])
  have r: "readTimeDate lib txt h = readTimeDate_close lib ?d txt (h(''recording_opened'' \<mapsto> VNone))"
    using assms(1) o by (simp add: readTimeDate_def)
  have c: "\<exists>h'. readTimeDate_close lib ?d txt (h(''recording_opened'' \<mapsto> VNone)) = Inr h'
      \<and> h' ''recording_opened'' = Some VNone"
    if "\<forall>p. datetime2_regex ?d = Some p \<longrightarrow> re_search p txt \<noteq> None"
    using that by (cases "datetime2_regex ?d") (auto simp: readTimeDate_close_def)
  show ?thesis
    using o r c by simp
qed

lemma dialect_neuraview: "readTimeDate_dialect header_neuraview = Inr neuraview2"
  by (simp add: readTimeDate_dialect_def header_neuraview_def)

lemma dialect_bml: "readTimeDate_dialect header_bml = Inr inHeader"
  by (simp add: readTimeDate_dialect_def header_bml_def)

lemma search_date_opened_only:
  "re_search (datetime1_regex (header_pattern_dicts neuraview2)) text_date_opened_only =
     Some \<lparr>whole = text_date_opened_only, groups = [(2, ''yy''), (1, ''xx'')]\<rparr>"
  unfolding text_date_opened_only_def
  by (simp add: search_eval del: rmatch.simps(4) cong: first_some_weak_cong)

lemma search_date_closed_missing:
  "\<exists>p. datetime2_regex (header_pattern_dicts neuraview2) = Some p
     \<and> re_search p text_date_opened_only = None"
  unfolding text_date_opened_only_def
  by (simp add: search_eval del: rmatch.simps(4) cong: first_some_weak_cong)

lemma search_time_opened_only:
  "re_search (datetime1_regex (header_pattern_dicts inHeader)) text_time_opened_only =
     Some \<lparr>whole = text_time_opened_only, groups = [(2, ''yy''), (1, ''xx'')]\<rparr>"
  unfolding text_time_opened_only_def
  by (simp add: search_eval del: rmatch.simps(4) cong: first_some_weak_cong)

lemma search_title_only:
  "re_search (datetime1_regex (header_pattern_dicts inHeader)) text_title_only = None"
  unfolding text_title_only_def
  by (simp add: search_eval del: rmatch.simps(4) cong: first_some_weak_cong)

lemma datetime_text_xx_yy:
  "datetime_text \<lparr>whole = w, groups = [(2, ''yy''), (1, ''xx'')]\<rparr> = ''xx yy''"
  by (simp add: datetime_text_def rgroup_def)

lemma strptime_xx_yy: "strptime sample_lib ''xx yy'' f = None"
  by (simp add: sample_lib_def)

text \<open>
  The claim C2 as first stated, that no error is raised when the dictionary has no pattern
  for the close time, fails for a header of the application \<open>BML\<close> whose text has no line
  for the opening time.
\<close>

theorem close_time_pattern_policy_counterexample:
  "readTimeDate_dialect header_bml = Inr inHeader
   \<and> datetime2_regex (header_pattern_dicts inHeader) = None
   \<and> readTimeDate sample_lib text_title_only header_bml = Inl IOError"
  using dialect_bml readTimeDate_open_missing [OF dialect_bml search_title_only, of sample_lib]
  by simp

theorem close_time_pattern_policy_witness:
  "readTimeDate_dialect header_neuraview = Inr neuraview2
   \<and> readTimeDate sample_lib text_date_opened_only header_neuraview = Inl IOError
   \<and> readTimeDate_dialect header_bml = Inr inHeader
   \<and> datetime2_regex (header_pattern_dicts inHeader) = None
   \<and> re_search (datetime1_regex (header_pattern_dicts inHeader)) text_time_opened_only \<noteq> None
   \<and> (\<exists>v. readTimeDate sample_lib text_time_opened_only header_bml
          = Inr (header_bml(''recording_opened'' \<mapsto> v)))"
proof -
  have 1: "readTimeDate sample_lib text_date_opened_only header_neuraview = Inl IOError"
    using close_time_pattern_policy [OF dialect_neuraview, of text_date_opened_only sample_lib]
      search_date_closed_missing by blast
  have n: "datetime2_regex (header_pattern_dicts inHeader) = None"
    by simp
  have s: "re_search (datetime1_regex (header_pattern_dicts inHeader)) text_time_opened_only \<noteq> None"
    by (simp only: search_time_opened_only option.distinct not_False_eq_True)
  have 2: "\<exists>v. readTimeDate sample_lib text_time_opened_only header_bml
      = Inr (header_bml(''recording_opened'' \<mapsto> v))"
    using close_time_pattern_policy [OF dialect_bml, of text_time_opened_only sample_lib] n s
    by blast
  show ?thesis
    using dialect_neuraview dialect_bml 1 n s 2 by blast
qed

text \<open>
  The claim C3 as first stated, that \<open>readTimeDate\<close> raises no error, fails for a header of
  the application \<open>Neuraview\<close> whose text has an unparseable line for the opening time and
  no line for the close time.
\<close>

theorem open_time_unparseable_counterexample:
  "re_search (datetime1_regex (header_pattern_dicts neuraview2)) text_date_opened_only =
     Some \<lparr>whole = text_date_opened_only, groups = [(2, ''yy''), (1, ''xx'')]\<rparr>
   \<and> strptime sample_lib ''xx yy'' (datetimeformat (header_pattern_dicts neuraview2)) = None
   \<and> datetime2format (header_pattern_dicts neuraview2) = None
   \<and> readTimeDate sample_lib text_date_opened_only header_neuraview = Inl IOError"
proof -
  obtain p where "datetime2_regex (header_pattern_dicts neuraview2) = Some p"
    "re_search p text_date_opened_only = None"
    using search_date_closed_missing by blast
  then have "readTimeDate sample_lib text_date_opened_only header_neuraview = Inl IOError"
    by (rule readTimeDate_close_missing [OF dialect_neuraview])
  then show ?thesis
    using search_date_opened_only strptime_xx_yy by simp
qed

theorem open_time_unparseable_is_none_witness:
  "readTimeDate_dialect header_bml = Inr inHeader
   \<and> re_search (datetime1_regex (header_pattern_dicts inHeader)) text_time_opened_only =
       Some \<lparr>whole = text_time_opened_only, groups = [(2, ''yy''), (1, ''xx'')]\<rparr>
   \<and> strptime sample_lib ''xx yy'' (datetimeformat (header_pattern_dicts inHeader)) = None
   \<and> readTimeDate sample_lib text_time_opened_only header_bml
       = Inr (header_bml(''recording_opened'' \<mapsto> VNone))"
proof -
  let ?m = "\<lparr>whole = text_time_opened_only, groups = [(2, ''yy''), (1 :: nat, ''xx'')]\<rparr>"
  have a: "strptime sample_lib (datetime_text ?m) (datetimeformat (header_pattern_dicts inHeader)) = None"
    by (simp only: datetime_text_xx_yy strptime_xx_yy)
  have b: "\<forall>f2. datetime2format (header_pattern_dicts inHeader) = Some f2 \<longrightarrow>
      strptime sample_lib (datetime_text ?m) f2 = None"
    by (simp only: datetime_text_xx_yy strptime_xx_yy simp_thms)
  have c: "readTimeDate_close sample_lib (header_pattern_dicts inHeader) text_time_opened_only
      (header_bml(''recording_opened'' \<mapsto> VNone)) = Inr (header_bml(''recording_opened'' \<mapsto> VNone))"
    by (simp add: readTimeDate_close_def)
  from open_time_unparseable_is_none [OF dialect_bml search_time_opened_only a b]
  have "readTimeDate sample_lib text_time_opened_only header_bml
      = Inr (header_bml(''recording_opened'' \<mapsto> VNone))"
    using c by simp
  then show ?thesis
    using dialect_bml search_time_opened_only strptime_xx_yy by simp
qed

subsection \<open>Fields of the header text and keys of the dictionary\<close>

lemma first_some_SomeD: "first_some f lo n = Some r \<Longrightarrow> \<exists>j. f j = Some r"
  by (induction n) (auto split: if_splits option.splits)

lemma rmatch_keeps_group:
  "rmatch p s pos ops caps = Some (e, caps') \<Longrightarrow> GClose g \<notin> set p \<Longrightarrow> map_of caps' g = map_of caps g"
proof (induction p arbitrary: s pos ops caps)
  case Nil
  then show ?case by simp
next
  case (Cons i p)
  show ?case
  proof (cases i)
    case (Item c q)
    with Cons.prems(1) obtain j where "rmatch p (drop j s) (pos + j) ops caps = Some (e, caps')"
      by (auto dest: first_some_SomeD)
    then show ?thesis
      using Cons.IH Cons.prems(2) by auto
  next
    case (GOpen g')
    then show ?thesis
      using Cons by auto
  next
    case (GClose g')
    then have "g' \<noteq> g"
      using Cons.prems(2) by auto
    then show ?thesis
      using Cons.IH [of s pos ops "(g', (case map_of ops g' of Some b \<Rightarrow> b | None \<Rightarrow> pos), pos) # caps"]
        Cons.prems GClose by auto
  qed
qed

lemma rmatch_lit:
  "rmatch (lit k @ p) s pos ops caps =
     (if startswith s k then rmatch p (drop (length k) s) (pos + length k) ops caps else None)"
proof (induction k arbitrary: s pos)
  case Nil
  then show ?case by (simp add: lit_def startswith_def)
next
  case (Cons c k)
  have l: "lit (c # k) @ p = Item (CChar c) One # (lit k @ p)"
    by (simp add: lit_def)
  show ?case
  proof (cases s)
    case Nil
    then show ?thesis
      unfolding l by (simp add: rmatch_char_Nil startswith_def del: rmatch.simps)
  next
    case (Cons x t)
    then show ?thesis
      unfolding l using Cons.IH [of t "Suc pos"]
      by (simp add: rmatch_char_Cons startswith_def del: rmatch.simps)
  qed
qed

lemma map_of_spans:
  "map_of (map (\<lambda>(g, b, e). (g, take (e - b) (drop b s))) caps) g =
     map_option (\<lambda>(b, e). take (e - b) (drop b s)) (map_of caps g)"
  by (induction caps) auto

lemma property_match_name:
  assumes "rmatch (property_pattern (lit k)) s 0 [] [] = Some r"
  shows "rgroup (mk_match s r) 1 = k"
proof -
  let ?rest = "[Item CSpace Plus, GOpen 2, Item CNonSpaceOrBlank Star, GClose 2]"
  have p: "property_pattern (lit k) = Item (CChar CHR ''-'') One # GOpen 1 # (lit k @ GClose 1 # ?rest)"
    by (simp add: property_pattern_def lit_def grp_def)
  obtain t where s: "s = CHR ''-'' # t"
    using assms unfolding p
    by (cases s) (auto simp: rmatch_char_Cons rmatch_char_Nil simp del: rmatch.simps split: if_splits)
  have m: "rmatch (lit k @ GClose 1 # ?rest) t (Suc 0) [(1, Suc 0)] [] = Some r"
    using assms unfolding p s by (simp add: rmatch_char_Cons del: rmatch.simps(4))
  then have k: "startswith t k"
    unfolding rmatch_lit by (simp split: if_splits)
  obtain e caps' where r: "r = (e, caps')"
    by (cases r)
  have "rmatch ?rest (drop (length k) t) (Suc 0 + length k) [(1, Suc 0)]
      [(1, Suc 0, Suc 0 + length k)] = Some (e, caps')"
    using m k unfolding rmatch_lit r by (simp del: rmatch.simps(4))
  then have "map_of caps' 1 = map_of [(1 :: nat, Suc 0, Suc 0 + length k)] 1"
    by (rule rmatch_keeps_group) simp
  then have "map_of caps' 1 = Some (Suc 0, Suc 0 + length k)"
    by simp
  then have "rgroup (mk_match s r) 1 = take (length k) t"
    unfolding r s by (simp add: rgroup_def mk_match_def map_of_spans)
  then show ?thesis
    using k by (simp add: startswith_def)
qed

lemma findall_matches_are_matches:
  "m \<in> set (findall_matches p s) \<Longrightarrow> \<exists>s' r. rmatch p s' 0 [] [] = Some r \<and> m = mk_match s' r"
proof (induction p s rule: findall_matches.induct)
  case (1 p)
  then show ?case
    by (cases "rmatch p [] 0 [] []") (auto simp del: rmatch.simps)
next
  case (2 p x t)
  show ?case
  proof (cases "rmatch p (x # t) 0 [] []")
    case None
    then show ?thesis
      using 2 by (simp del: rmatch.simps)
  next
    case (Some r)
    then have "m = mk_match (x # t) r \<or> m \<in> set (findall_matches p (drop (fst r - 1) t))"
      using "2.prems" by (simp del: rmatch.simps)
    then show ?thesis
      using Some "2.IH"(2) [OF Some] by blast
  qed
qed

lemma property_field_name:
  assumes "m \<in> set (findall2 (property_pattern (lit k)) txt)"
  shows "fst m = k"
proof -
  from assms obtain x where "x \<in> set (findall_matches (property_pattern (lit k)) txt)"
    and m: "m = (rgroup x 1, rgroup x 2)"
    by (auto simp: findall2_def)
  then obtain s' r where "rmatch (property_pattern (lit k)) s' 0 [] [] = Some r" "x = mk_match s' r"
    using findall_matches_are_matches by blast
  then show ?thesis
    using property_match_name m by simp
qed

lemma store_matches_dom:
  "store_matches lib k2 c ms h = Inr h' \<Longrightarrow>
     dom h \<subseteq> dom h' \<and> (\<forall>m\<in>set ms. (if k2 = [] then fst m else k2) \<in> dom h')"
proof (induction ms arbitrary: h)
  case Nil
  then show ?case by simp
next
  case (Cons m ms)
  let ?n = "if k2 = [] then fst m else k2"
  from Cons.prems obtain x where
    "store_matches lib k2 c ms (h(?n \<mapsto> x)) = Inr h'"
    by (auto simp: Let_def split: sum.splits)
  from Cons.IH [OF this] have
    1: "dom (h(?n \<mapsto> x)) \<subseteq> dom h'" and
    2: "\<forall>m\<in>set ms. (if k2 = [] then fst m else k2) \<in> dom h'"
    by blast+
  have "dom h \<subseteq> dom (h(?n \<mapsto> x))" "?n \<in> dom (h(?n \<mapsto> x))"
    by (simp_all add: subset_insertI split del: if_split)
  then have "dom h \<subseteq> dom h'" "?n \<in> dom h'"
    using 1 by blast+
  then show ?case
    using 2 by (simp split del: if_split)
qed

lemma read_keys_dom:
  "read_keys lib ks txt h = Inr h' \<Longrightarrow>
     dom h \<subseteq> dom h' \<and>
     (\<forall>row\<in>set ks. \<forall>m\<in>set (findall2 (property_pattern (fst row)) txt).
        (if fst (snd row) = [] then fst m else fst (snd row)) \<in> dom h')"
proof (induction ks arbitrary: h)
  case Nil
  then show ?case by simp
next
  case (Cons row ks)
  obtain k1 k2 c where row: "row = (k1, k2, c)"
    by (cases row)
  from Cons.prems obtain h1 where
    1: "store_matches lib k2 c (findall2 (property_pattern k1) txt) h = Inr h1" and
    2: "read_keys lib ks txt h1 = Inr h'"
    unfolding row by (auto split: sum.splits)
  from store_matches_dom [OF 1] have
    a: "dom h \<subseteq> dom h1" and
    b: "\<forall>m\<in>set (findall2 (property_pattern k1) txt). (if k2 = [] then fst m else k2) \<in> dom h1"
    by blast+
  from Cons.IH [OF 2] have
    c: "dom h1 \<subseteq> dom h'" and
    d: "\<forall>row\<in>set ks. \<forall>m\<in>set (findall2 (property_pattern (fst row)) txt).
        (if fst (snd row) = [] then fst m else fst (snd row)) \<in> dom h'"
    by blast+
  have "dom h \<subseteq> dom h'"
    using a c by blast
  moreover have "\<forall>m\<in>set (findall2 (property_pattern k1) txt).
      (if k2 = [] then fst m else k2) \<in> dom h'"
    using b c by blast
  ultimately show ?case
    using d unfolding row by (simp split del: if_split cong del: if_weak_cong)
qed

lemma read_properties_records_field:
  assumes "read_properties lib txt h = Inr h'"
    and "(lit k, [], c) \<in> set txt_header_keys"
    and "findall2 (property_pattern (lit k)) txt \<noteq> []"
  shows "k \<in> dom h'"
proof -
  obtain m where m: "m \<in> set (findall2 (property_pattern (lit k)) txt)"
    using assms(3) by (cases "findall2 (property_pattern (lit k)) txt") auto
  have "read_keys lib txt_header_keys txt h = Inr h'"
    using assms(1) by (simp add: read_properties_def)
  from read_keys_dom [OF this] assms(2) m have "fst m \<in> dom h'"
    by fastforce
  then show ?thesis
    using property_field_name [OF m] by simp
qed

end
